theory Spec2Isabelle
  imports Complex_Main "HOL-Library.Multiset" "HOL-Library.Char_ord" "HOL-Library.List_Lexorder"
    "HOL-Library.Log_Nat"
begin

section \<open>JavaScript numbers\<close>

text \<open>
  The analysis code computes on JavaScript \<open>number\<close>s, that is, IEEE 754 binary64
  values. A number is modelled as a finite value, given by the real it denotes, or one
  of the two infinities or NaN. The arithmetic operations compute the exact real result
  and round it to the nearest binary64 value, ties to even, with overflow to an
  infinity and gradual underflow. The two zeros are identified: the sign of a zero is
  not modelled (it is visible in the source's functions only if a quotient by zero is
  formed, and a zero divisor is taken as positive zero there).
\<close>

datatype number = Fin real | PInf | NInf | NaN

fun is_fin :: "number \<Rightarrow> bool" where
  "is_fin (Fin x) = True"
| "is_fin _ = False"

fun val :: "number \<Rightarrow> real" where
  "val (Fin x) = x"
| "val _ = 0"

subsection \<open>Rounding to binary64\<close>

text \<open>For \<open>x > 0\<close>, the exponent \<open>k\<close> with \<open>2 ^ k \<le> x < 2 ^ (k + 1)\<close>.\<close>

definition ilog2 :: "real \<Rightarrow> int" where
  "ilog2 x = (if x \<ge> 1 then bitlen \<lfloor>x\<rfloor> - 1 else - bitlen (\<lceil>1 / x\<rceil> - 1))"

text \<open>The nearest integer, a tie going to the even neighbour.\<close>

definition round_half_even :: "real \<Rightarrow> int" where
  "round_half_even y =
     (let f = \<lfloor>y\<rfloor>; d = y - of_int f
      in if d < 1 / 2 then f else if d > 1 / 2 then f + 1
         else if even f then f else f + 1)"

text \<open>
  The binary64 value of a real: 53 significant bits, the unit in the last place never
  below \<open>2 ^ -1074\<close> (subnormal numbers), and an infinity when the rounded magnitude
  reaches \<open>2 ^ 1024\<close>.
\<close>

definition round_double :: "real \<Rightarrow> number" where
  "round_double x =
     (if x = 0 then Fin 0
      else let q = max (ilog2 \<bar>x\<bar> - 52) (- 1074);
               y = of_int (round_half_even (x / 2 powi q)) * 2 powi q
           in if \<bar>y\<bar> \<ge> 2 powi 1024 then (if x > 0 then PInf else NInf) else Fin y)"

subsection \<open>Operations\<close>

text \<open>\<open>a + b\<close>\<close>

fun jadd :: "number \<Rightarrow> number \<Rightarrow> number" where
  "jadd NaN _ = NaN"
| "jadd _ NaN = NaN"
| "jadd (Fin a) (Fin b) = round_double (a + b)"
| "jadd PInf NInf = NaN"
| "jadd NInf PInf = NaN"
| "jadd PInf _ = PInf"
| "jadd _ PInf = PInf"
| "jadd NInf _ = NInf"
| "jadd _ NInf = NInf"

text \<open>Unary minus (exact), and \<open>a - b\<close> as \<open>a + (-b)\<close>.\<close>

fun jneg :: "number \<Rightarrow> number" where
  "jneg (Fin a) = Fin (- a)"
| "jneg PInf = NInf"
| "jneg NInf = PInf"
| "jneg NaN = NaN"

definition jsub :: "number \<Rightarrow> number \<Rightarrow> number" where
  "jsub a b = jadd a (jneg b)"

text \<open>\<open>a * b\<close>: zero times infinity is NaN, otherwise the signs multiply.\<close>

fun jmul :: "number \<Rightarrow> number \<Rightarrow> number" where
  "jmul NaN _ = NaN"
| "jmul _ NaN = NaN"
| "jmul (Fin a) (Fin b) = round_double (a * b)"
| "jmul (Fin a) PInf = (if a = 0 then NaN else if a > 0 then PInf else NInf)"
| "jmul (Fin a) NInf = (if a = 0 then NaN else if a > 0 then NInf else PInf)"
| "jmul PInf (Fin b) = (if b = 0 then NaN else if b > 0 then PInf else NInf)"
| "jmul NInf (Fin b) = (if b = 0 then NaN else if b > 0 then NInf else PInf)"
| "jmul PInf PInf = PInf"
| "jmul NInf NInf = PInf"
| "jmul PInf NInf = NInf"
| "jmul NInf PInf = NInf"

text \<open>
  \<open>a / b\<close>: the rounded quotient when the divisor is finite and not zero; \<open>0 / 0\<close> and
  \<open>Infinity / Infinity\<close> are NaN; a nonzero dividend over zero is an infinity.
\<close>

fun jdiv :: "number \<Rightarrow> number \<Rightarrow> number" where
  "jdiv NaN _ = NaN"
| "jdiv _ NaN = NaN"
| "jdiv (Fin a) (Fin b) =
     (if b = 0 then (if a = 0 then NaN else if a > 0 then PInf else NInf)
      else round_double (a / b))"
| "jdiv (Fin a) _ = Fin 0"
| "jdiv PInf (Fin b) = (if b \<ge> 0 then PInf else NInf)"
| "jdiv NInf (Fin b) = (if b \<ge> 0 then NInf else PInf)"
| "jdiv _ _ = NaN"

text \<open>\<open>a > b\<close>: false whenever an operand is NaN.\<close>

fun jgt :: "number \<Rightarrow> number \<Rightarrow> bool" where
  "jgt NaN _ = False"
| "jgt _ NaN = False"
| "jgt (Fin a) (Fin b) = (a > b)"
| "jgt PInf PInf = False"
| "jgt PInf _ = True"
| "jgt _ PInf = False"
| "jgt NInf _ = False"
| "jgt _ NInf = True"

text \<open>\<open>a === b\<close>: NaN is equal to nothing, itself included.\<close>

fun jeq :: "number \<Rightarrow> number \<Rightarrow> bool" where
  "jeq NaN _ = False"
| "jeq _ NaN = False"
| "jeq a b = (a = b)"

text \<open>\<open>x ?? d\<close>: the default replaces an absent (undefined or null) value only.\<close>

fun nullish :: "'a option \<Rightarrow> 'a \<Rightarrow> 'a" where
  "nullish None d = d"
| "nullish (Some x) d = x"

section \<open>ROI calculator (src/analysis/roi-calculator.ts)\<close>

record CampaignMetrics =
  metricsCampaignId :: string
  date :: string
  impressions :: number
  clicks :: number
  spend :: number
  sales :: number
  orders :: number
  unitsSold :: number
  kenpRoyalties :: "number option"
  kenpPagesRead :: "number option"

record AnalysisConfig =
  royaltyPerSale :: number
  kenpRatePerPage :: "number option"

text \<open>The anonymous object type that \<open>aggregateMetrics\<close> returns.\<close>

record aggregate =
  agg_impressions :: number
  agg_clicks :: number
  agg_spend :: number
  agg_sales :: number
  agg_orders :: number
  agg_unitsSold :: number
  agg_kenpRoyalties :: number

record DateRange =
  startDate :: string
  endDate :: string

record ROIMetrics =
  campaignId :: string
  campaignName :: string
  period :: DateRange
  totalSpend :: number
  totalSales :: number
  totalOrders :: number
  totalUnitsSold :: number
  totalImpressions :: number
  totalClicks :: number
  acos :: number
  roas :: number
  ctr :: number
  cpc :: number
  conversionRate :: number
  estimatedRoyalties :: number
  estimatedProfit :: number
  profitMargin :: number
  breakEvenAcos :: number

text \<open>The callback of the \<open>reduce\<close>, and the \<open>reduce\<close> itself as a left fold from zero.\<close>

definition aggregate_step :: "aggregate \<Rightarrow> CampaignMetrics \<Rightarrow> aggregate" where
  "aggregate_step acc m =
     \<lparr> agg_impressions = jadd (agg_impressions acc) (impressions m),
       agg_clicks = jadd (agg_clicks acc) (clicks m),
       agg_spend = jadd (agg_spend acc) (spend m),
       agg_sales = jadd (agg_sales acc) (sales m),
       agg_orders = jadd (agg_orders acc) (orders m),
       agg_unitsSold = jadd (agg_unitsSold acc) (unitsSold m),
       agg_kenpRoyalties = jadd (agg_kenpRoyalties acc) (nullish (kenpRoyalties m) (Fin 0)) \<rparr>"

definition aggregate_zero :: aggregate where
  "aggregate_zero =
     \<lparr> agg_impressions = Fin 0, agg_clicks = Fin 0, agg_spend = Fin 0, agg_sales = Fin 0,
       agg_orders = Fin 0, agg_unitsSold = Fin 0, agg_kenpRoyalties = Fin 0 \<rparr>"

definition aggregateMetrics :: "CampaignMetrics list \<Rightarrow> aggregate" where
  "aggregateMetrics metrics = foldl aggregate_step aggregate_zero metrics"

definition calculateROI ::
  "string \<Rightarrow> string \<Rightarrow> CampaignMetrics list \<Rightarrow> AnalysisConfig \<Rightarrow> ROIMetrics" where
  "calculateROI cId cName metrics config =
     (let agg = aggregateMetrics metrics;
          acos' = (if jgt (agg_sales agg) (Fin 0)
                   then jmul (jdiv (agg_spend agg) (agg_sales agg)) (Fin 100) else Fin 0);
          roas' = (if jgt (agg_spend agg) (Fin 0)
                   then jdiv (agg_sales agg) (agg_spend agg) else Fin 0);
          ctr' = (if jgt (agg_impressions agg) (Fin 0)
                  then jmul (jdiv (agg_clicks agg) (agg_impressions agg)) (Fin 100) else Fin 0);
          cpc' = (if jgt (agg_clicks agg) (Fin 0)
                  then jdiv (agg_spend agg) (agg_clicks agg) else Fin 0);
          conversionRate' = (if jgt (agg_clicks agg) (Fin 0)
                  then jmul (jdiv (agg_orders agg) (agg_clicks agg)) (Fin 100) else Fin 0);
          salesRoyalties = jmul (agg_unitsSold agg) (royaltyPerSale config);
          totalRoyalties = jadd salesRoyalties (agg_kenpRoyalties agg);
          profit = jsub totalRoyalties (agg_spend agg);
          profitMargin' = (if jgt totalRoyalties (Fin 0)
                  then jmul (jdiv profit totalRoyalties) (Fin 100) else Fin 0);
          breakEvenAcos' =
            (if jgt (agg_sales agg) (Fin 0)
             then jmul (jdiv totalRoyalties (agg_sales agg)) (Fin 100)
             else if jgt (royaltyPerSale config) (Fin 0) then Fin 30 else Fin 0);
          dateRange =
            (if length metrics > 0
             then \<lparr> startDate = date (metrics ! 0),
                    endDate = date (metrics ! (length metrics - 1)) \<rparr>
             else \<lparr> startDate = '''', endDate = '''' \<rparr>)
      in \<lparr> campaignId = cId, campaignName = cName, period = dateRange,
           totalSpend = agg_spend agg, totalSales = agg_sales agg,
           totalOrders = agg_orders agg, totalUnitsSold = agg_unitsSold agg,
           totalImpressions = agg_impressions agg, totalClicks = agg_clicks agg,
           acos = acos', roas = roas', ctr = ctr', cpc = cpc',
           conversionRate = conversionRate',
           estimatedRoyalties = totalRoyalties, estimatedProfit = profit,
           profitMargin = profitMargin', breakEvenAcos = breakEvenAcos' \<rparr>)"

definition percentageChange :: "number \<Rightarrow> number \<Rightarrow> number" where
  "percentageChange current previous =
     (if jeq previous (Fin 0)
      then (if jgt current (Fin 0) then Fin 100 else Fin 0)
      else jmul (jdiv (jsub current previous) previous) (Fin 100))"

record Changes =
  spendChange :: number
  salesChange :: number
  acosChange :: number
  profitChange :: number
  impressionsChange :: number
  clicksChange :: number

record PeriodComparison =
  currentPeriod :: ROIMetrics
  previousPeriod :: ROIMetrics
  changes :: Changes

definition comparePeriods :: "ROIMetrics \<Rightarrow> ROIMetrics \<Rightarrow> PeriodComparison" where
  "comparePeriods current previous =
     \<lparr> currentPeriod = current,
       previousPeriod = previous,
       changes =
         \<lparr> spendChange = percentageChange (totalSpend current) (totalSpend previous),
           salesChange = percentageChange (totalSales current) (totalSales previous),
           acosChange = percentageChange (acos current) (acos previous),
           profitChange = percentageChange (estimatedProfit current) (estimatedProfit previous),
           impressionsChange =
             percentageChange (totalImpressions current) (totalImpressions previous),
           clicksChange = percentageChange (totalClicks current) (totalClicks previous) \<rparr> \<rparr>"

subsection \<open>Notions used to state the properties of the calculator\<close>

text \<open>The sum of a list of numbers, added from zero in list order as \<open>reduce\<close> does.\<close>

definition jsum :: "number list \<Rightarrow> number" where
  "jsum xs = foldl jadd (Fin 0) xs"

text \<open>A count: a finite number that is a non-negative integer.\<close>

definition is_count :: "number \<Rightarrow> bool" where
  "is_count x = (case x of Fin v \<Rightarrow> 0 \<le> v \<and> of_int \<lfloor>v\<rfloor> = v | PInf \<Rightarrow> False
                 | NInf \<Rightarrow> False | NaN \<Rightarrow> False)"

text \<open>A report whose six compared fields are finite numbers.\<close>

definition finite_report :: "ROIMetrics \<Rightarrow> bool" where
  "finite_report r \<longleftrightarrow>
     is_fin (totalSpend r) \<and> is_fin (totalSales r) \<and> is_fin (acos r) \<and>
     is_fin (estimatedProfit r) \<and> is_fin (totalImpressions r) \<and> is_fin (totalClicks r)"

text \<open>
  The change formula in the specification's words, on finite values \<open>c\<close> (current) and
  \<open>p\<close> (previous): the difference rounded, divided by \<open>p\<close>, times 100; and for a
  previous value of zero, 100 if the current value is positive and 0 otherwise.
\<close>

definition change_formula :: "real \<Rightarrow> real \<Rightarrow> number" where
  "change_formula c p =
     (if p = 0 then (if c > 0 then Fin 100 else Fin 0)
      else jmul (jdiv (round_double (c - p)) (Fin p)) (Fin 100))"

section \<open>Change workflow: storage (src/db/schema.ts, src/db/database.ts)\<close>

datatype change_status = Pending | Approved | Rejected | Executed | Failed

datatype change_type = BidAdjustment | StateChange | BudgetChange | AddNegativeKeyword

datatype target_type = TCampaign | TAdGroup | TKeyword | TProductTarget | TCategoryTarget

text \<open>
  The JSON payloads \<open>Record<string, unknown>\<close>: an object is the list of its properties
  and a property read is \<open>map_of\<close> (\<open>None\<close> for \<open>undefined\<close>).
\<close>

datatype json = JNum number | JStr string | JNull

type_synonym payload = "(string \<times> json) list"

text \<open>
  What comes back from a JSONB column after \<open>JSON.stringify\<close> has written a payload:
  strings and finite numbers as they were, NaN and the infinities as \<open>null\<close>.
\<close>

fun stored_json :: "json \<Rightarrow> json" where
  "stored_json (JNum x) = (if is_fin x then JNum x else JNull)"
| "stored_json (JStr s) = JStr s"
| "stored_json JNull = JNull"

definition stored_payload :: "payload \<Rightarrow> payload" where
  "stored_payload p = map (\<lambda>(k, v). (k, stored_json v)) p"

text \<open>A row of \<open>pending_changes\<close>; timestamps are readings of the database clock.\<close>

record PendingChange =
  change_id :: nat
  changeType :: change_type
  targetType :: target_type
  targetId :: string
  targetName :: "string option"
  currentValue :: payload
  proposedValue :: payload
  reason :: "string option"
  status :: change_status
  createdAt :: nat
  reviewedAt :: "nat option"
  executedAt :: "nat option"
  errorMessage :: "string option"

text \<open>The columns of \<open>keywords\<close> and \<open>campaigns\<close> that the workflow reads.\<close>

record Keyword =
  keywordText :: string
  keywordState :: string
  bid :: number

record Campaign =
  campaignTitle :: string
  dailyBudget :: number

text \<open>A row of \<open>change_history\<close>.\<close>

record ChangeHistoryRow =
  pending_change_id :: "nat option"
  target_type :: target_type
  target_id :: string
  change_type :: change_type
  old_value :: "payload option"
  new_value :: payload
  executed_at :: nat
  success :: bool
  api_response :: "payload option"

text \<open>
  The tables the workflow touches. \<open>pending_changes_id_seq\<close> is the next value of the
  \<open>SERIAL\<close> sequence behind \<open>pending_changes.id\<close>; \<open>change_history\<close> is in insertion
  order.
\<close>

record database =
  keywords_table :: "string \<rightharpoonup> Keyword"
  campaigns_table :: "string \<rightharpoonup> Campaign"
  pending_changes :: "nat \<rightharpoonup> PendingChange"
  pending_changes_id_seq :: nat
  change_history :: "ChangeHistoryRow list"

datatype db_error = UniqueViolation

definition getKeywordById :: "string \<Rightarrow> database \<Rightarrow> Keyword option" where
  "getKeywordById i d = keywords_table d i"

definition getCampaignById :: "string \<Rightarrow> database \<Rightarrow> Campaign option" where
  "getCampaignById i d = campaigns_table d i"

text \<open>
  \<open>INSERT INTO pending_changes ... RETURNING id\<close>: the id comes from the sequence, the
  status and \<open>created_at\<close> from the column defaults (\<open>'pending'\<close>, \<open>NOW()\<close>), the other
  timestamps and the error message are NULL; the two payloads go through
  \<open>JSON.stringify\<close>. The primary key rejects an id already in the table; the sequence
  advances all the same.
\<close>

definition createPendingChange ::
  "nat \<Rightarrow> change_type \<Rightarrow> target_type \<Rightarrow> string \<Rightarrow> string option \<Rightarrow> payload \<Rightarrow> payload \<Rightarrow>
   string option \<Rightarrow> database \<Rightarrow> (db_error + nat) \<times> database" where
  "createPendingChange now ct tt tid tname cur prop rsn d =
     (let i = pending_changes_id_seq d;
          d' = d\<lparr> pending_changes_id_seq := Suc i \<rparr>
      in if pending_changes d i \<noteq> None then (Inl UniqueViolation, d')
         else (Inr i,
               d'\<lparr> pending_changes := (pending_changes d)(i \<mapsto>
                     \<lparr> change_id = i, changeType = ct, targetType = tt, targetId = tid,
                       targetName = tname, currentValue = stored_payload cur,
                       proposedValue = stored_payload prop,
                       reason = rsn, status = Pending, createdAt = now,
                       reviewedAt = None, executedAt = None, errorMessage = None \<rparr>) \<rparr>))"

definition getPendingChangeById :: "nat \<Rightarrow> database \<Rightarrow> PendingChange option" where
  "getPendingChangeById i d = pending_changes d i"

text \<open>
  \<open>UPDATE pending_changes SET status = $2, reviewed_at = NOW() [, executed_at = NOW()]
  [, error_message = $3] WHERE id = $1\<close>. The only condition is the id; the error
  message is set when the argument is truthy, that is, given and not the empty string.
\<close>

definition updatePendingChangeStatus ::
  "nat \<Rightarrow> nat \<Rightarrow> change_status \<Rightarrow> string option \<Rightarrow> database \<Rightarrow> database" where
  "updatePendingChangeStatus now i st errMsg d =
     (case pending_changes d i of
        None \<Rightarrow> d
      | Some row \<Rightarrow>
          d\<lparr> pending_changes := (pending_changes d)(i \<mapsto>
               row\<lparr> status := st,
                    reviewedAt := Some now,
                    executedAt := (if st = Executed \<or> st = Failed then Some now
                                   else executedAt row),
                    errorMessage := (case errMsg of
                                       None \<Rightarrow> errorMessage row
                                     | Some m \<Rightarrow> if m \<noteq> [] then Some m
                                                else errorMessage row) \<rparr>) \<rparr>)"

text \<open>
  \<open>INSERT INTO change_history\<close>. The handlers pass the payloads of a row read from
  \<open>pending_changes\<close> and an object holding a string, which \<open>JSON.stringify\<close> writes
  as they are.
\<close>

definition recordChangeHistory ::
  "nat \<Rightarrow> nat option \<Rightarrow> target_type \<Rightarrow> string \<Rightarrow> change_type \<Rightarrow> payload option \<Rightarrow> payload \<Rightarrow>
   bool \<Rightarrow> payload option \<Rightarrow> database \<Rightarrow> database" where
  "recordChangeHistory now pcId tt tid ct oldValue newValue ok apiResponse d =
     d\<lparr> change_history := change_history d @
          [\<lparr> pending_change_id = pcId, target_type = tt, target_id = tid, change_type = ct,
             old_value = oldValue, new_value = newValue, executed_at = now, success = ok,
             api_response = apiResponse \<rparr>] \<rparr>"

section \<open>Change workflow: tool handlers (the MCP server's \<open>CallTool\<close> switch)\<close>

text \<open>
  The execution backend. A mutation call either resolves (\<open>None\<close>) or throws a value:
  an \<open>Error\<close> object with its message, or something that is not an \<open>Error\<close>.
  \<open>adsClient\<close> is \<open>None\<close> when the API is not configured.
\<close>

datatype ads_call =
    UpdateKeywordBid string "json option"
  | UpdateKeywordState string "json option"
  | UpdateCampaignBudget string "json option"
  | AddNegativeKeywordCall string "json option" "json option"

datatype thrown = ErrorObject string | OtherValue

type_synonym ads_client = "ads_call \<Rightarrow> thrown option"

text \<open>The database together with the log of the mutation calls sent to the backend.\<close>

record world =
  db :: database
  ads_calls :: "ads_call list"

text \<open>
  What a handler returns. Each constructor stands for one of the handler's messages with
  the values the message prints; \<open>isError\<close> is the flag of the same name.
  \<open>Conflict i s\<close> is "Change i is already s."
\<close>

datatype tool_result =
    KeywordNotFound string
  | CampaignNotFound string
  | ProposalCreated nat
  | ToolError db_error
  | ChangeNotFound nat
  | Conflict nat change_status
  | ApprovedNotExecuted nat
  | ExecutedOk nat
  | ExecutionFailed nat string
  | RejectedOk nat

fun isError :: "tool_result \<Rightarrow> bool" where
  "isError (KeywordNotFound _) = True"
| "isError (CampaignNotFound _) = True"
| "isError (ProposalCreated _) = False"
| "isError (ToolError _) = True"
| "isError (ChangeNotFound _) = True"
| "isError (Conflict _ _) = True"
| "isError (ApprovedNotExecuted _) = False"
| "isError (ExecutedOk _) = False"
| "isError (ExecutionFailed _ _) = True"
| "isError (RejectedOk _) = False"

text \<open>
  The end of every propose handler: the new id is reported, and a failed insert is
  caught by the switch's outer \<open>catch\<close> and reported as an error.
\<close>

definition proposal_result :: "(db_error + nat) \<times> database \<Rightarrow> world \<Rightarrow> tool_result \<times> world" where
  "proposal_result res w =
     (case res of
        (Inl e, d') \<Rightarrow> (ToolError e, w\<lparr> db := d' \<rparr>)
      | (Inr changeId, d') \<Rightarrow> (ProposalCreated changeId, w\<lparr> db := d' \<rparr>))"

definition propose_bid_change ::
  "nat \<Rightarrow> string \<Rightarrow> number \<Rightarrow> string option \<Rightarrow> world \<Rightarrow> tool_result \<times> world" where
  "propose_bid_change now keywordId newBid rsn w =
     (case getKeywordById keywordId (db w) of
        None \<Rightarrow> (KeywordNotFound keywordId, w)
      | Some keyword \<Rightarrow>
          proposal_result
            (createPendingChange now BidAdjustment TKeyword keywordId
               (Some (keywordText keyword))
               [(''bid'', JNum (bid keyword))] [(''bid'', JNum newBid)] rsn (db w)) w)"

definition propose_keyword_state_change ::
  "nat \<Rightarrow> string \<Rightarrow> string \<Rightarrow> string option \<Rightarrow> world \<Rightarrow> tool_result \<times> world" where
  "propose_keyword_state_change now keywordId newState rsn w =
     (case getKeywordById keywordId (db w) of
        None \<Rightarrow> (KeywordNotFound keywordId, w)
      | Some keyword \<Rightarrow>
          proposal_result
            (createPendingChange now StateChange TKeyword keywordId
               (Some (keywordText keyword))
               [(''state'', JStr (keywordState keyword))] [(''state'', JStr newState)]
               rsn (db w)) w)"

definition propose_budget_change ::
  "nat \<Rightarrow> string \<Rightarrow> number \<Rightarrow> string option \<Rightarrow> world \<Rightarrow> tool_result \<times> world" where
  "propose_budget_change now cId newBudget rsn w =
     (case getCampaignById cId (db w) of
        None \<Rightarrow> (CampaignNotFound cId, w)
      | Some campaign \<Rightarrow>
          proposal_result
            (createPendingChange now BudgetChange TCampaign cId
               (Some (campaignTitle campaign))
               [(''dailyBudget'', JNum (dailyBudget campaign))]
               [(''dailyBudget'', JNum newBudget)] rsn (db w)) w)"

definition propose_negative_keyword ::
  "nat \<Rightarrow> string \<Rightarrow> string \<Rightarrow> string \<Rightarrow> string option \<Rightarrow> world \<Rightarrow> tool_result \<times> world" where
  "propose_negative_keyword now cId kwText matchType rsn w =
     (case getCampaignById cId (db w) of
        None \<Rightarrow> (CampaignNotFound cId, w)
      | Some campaign \<Rightarrow>
          proposal_result
            (createPendingChange now AddNegativeKeyword TCampaign cId
               (Some (campaignTitle campaign))
               [] [(''keywordText'', JStr kwText), (''matchType'', JStr matchType)]
               rsn (db w)) w)"

text \<open>The \<open>switch (change.changeType)\<close> of \<open>approve_change\<close>: one backend call per kind.\<close>

definition dispatch :: "PendingChange \<Rightarrow> ads_call" where
  "dispatch change =
     (case changeType change of
        BidAdjustment \<Rightarrow>
          UpdateKeywordBid (targetId change) (map_of (proposedValue change) ''bid'')
      | StateChange \<Rightarrow>
          UpdateKeywordState (targetId change) (map_of (proposedValue change) ''state'')
      | BudgetChange \<Rightarrow>
          UpdateCampaignBudget (targetId change)
            (map_of (proposedValue change) ''dailyBudget'')
      | AddNegativeKeyword \<Rightarrow>
          AddNegativeKeywordCall (targetId change)
            (map_of (proposedValue change) ''keywordText'')
            (map_of (proposedValue change) ''matchType''))"

text \<open>
  \<open>approve_change\<close>, first half: the read of the proposal and the two guards. It ends
  the handler with a result, or hands the row it read to the second half.
\<close>

definition approve_change_guard :: "nat \<Rightarrow> world \<Rightarrow> tool_result + PendingChange" where
  "approve_change_guard changeId w =
     (case getPendingChangeById changeId (db w) of
        None \<Rightarrow> Inl (ChangeNotFound changeId)
      | Some change \<Rightarrow>
          if status change \<noteq> Pending then Inl (Conflict changeId (status change))
          else Inr change)"

text \<open>The message of a caught value: \<open>error instanceof Error ? error.message : 'Unknown error'\<close>.\<close>

fun error_message_of :: "thrown \<Rightarrow> string" where
  "error_message_of (ErrorObject m) = m"
| "error_message_of OtherValue = ''Unknown error''"

text \<open>
  \<open>approve_change\<close>, second half, on the row read by the first: without a client the
  status is set to approved; with one, the backend call is made and its outcome is
  written to the proposal and to the history.
\<close>

definition approve_change_execute ::
  "ads_client option \<Rightarrow> nat \<Rightarrow> nat \<Rightarrow> PendingChange \<Rightarrow> world \<Rightarrow> tool_result \<times> world" where
  "approve_change_execute adsClient now changeId change w =
     (case adsClient of
        None \<Rightarrow>
          (ApprovedNotExecuted changeId,
           w\<lparr> db := updatePendingChangeStatus now changeId Approved None (db w) \<rparr>)
      | Some client \<Rightarrow>
          (let w1 = w\<lparr> ads_calls := ads_calls w @ [dispatch change] \<rparr>
           in case client (dispatch change) of
                None \<Rightarrow>
                  (ExecutedOk changeId,
                   w1\<lparr> db :=
                     recordChangeHistory now (Some changeId) (targetType change)
                       (targetId change) (changeType change) (Some (currentValue change))
                       (proposedValue change) True None
                       (updatePendingChangeStatus now changeId Executed None (db w1)) \<rparr>)
              | Some error \<Rightarrow>
                  (let errorMsg = error_message_of error
                   in (ExecutionFailed changeId errorMsg,
                       w1\<lparr> db :=
                         recordChangeHistory now (Some changeId) (targetType change)
                           (targetId change) (changeType change)
                           (Some (currentValue change)) (proposedValue change) False
                           (Some [(''error'', JStr errorMsg)])
                           (updatePendingChangeStatus now changeId Failed (Some errorMsg)
                              (db w1)) \<rparr>))))"

definition approve_change ::
  "ads_client option \<Rightarrow> nat \<Rightarrow> nat \<Rightarrow> world \<Rightarrow> tool_result \<times> world" where
  "approve_change adsClient now changeId w =
     (case approve_change_guard changeId w of
        Inl result \<Rightarrow> (result, w)
      | Inr change \<Rightarrow> approve_change_execute adsClient now changeId change w)"

definition reject_change :: "nat \<Rightarrow> nat \<Rightarrow> world \<Rightarrow> tool_result \<times> world" where
  "reject_change now changeId w =
     (case getPendingChangeById changeId (db w) of
        None \<Rightarrow> (ChangeNotFound changeId, w)
      | Some change \<Rightarrow>
          if status change \<noteq> Pending then (Conflict changeId (status change), w)
          else (RejectedOk changeId,
                w\<lparr> db := updatePendingChangeStatus now changeId Rejected None (db w) \<rparr>))"

subsection \<open>Sequences of operations\<close>

text \<open>
  One call of a workflow tool with its arguments; an approval also carries the client
  as it is, and as it answers, at that time. Every call is made at some clock reading.
\<close>

datatype operation =
    ProposeBidChange string number "string option"
  | ProposeKeywordStateChange string string "string option"
  | ProposeBudgetChange string number "string option"
  | ProposeNegativeKeyword string string string "string option"
  | ApproveChange "ads_client option" nat
  | RejectChange nat

fun run_operation :: "nat \<Rightarrow> operation \<Rightarrow> world \<Rightarrow> tool_result \<times> world" where
  "run_operation now (ProposeBidChange k b r) w = propose_bid_change now k b r w"
| "run_operation now (ProposeKeywordStateChange k s r) w =
     propose_keyword_state_change now k s r w"
| "run_operation now (ProposeBudgetChange c b r) w = propose_budget_change now c b r w"
| "run_operation now (ProposeNegativeKeyword c t m r) w =
     propose_negative_keyword now c t m r w"
| "run_operation now (ApproveChange client i) w = approve_change client now i w"
| "run_operation now (RejectChange i) w = reject_change now i w"

fun run_operations :: "(nat \<times> operation) list \<Rightarrow> world \<Rightarrow> world" where
  "run_operations [] w = w"
| "run_operations ((now, opn) # rest) w = run_operations rest (snd (run_operation now opn w))"

text \<open>The status changes that the handlers make.\<close>

definition handler_transitions :: "(change_status \<times> change_status) set" where
  "handler_transitions =
     {(Pending, Approved), (Pending, Rejected), (Pending, Executed), (Pending, Failed)}"

text \<open>The status changes of the specification's state machine.\<close>

definition specified_transitions :: "(change_status \<times> change_status) set" where
  "specified_transitions =
     {(Pending, Approved), (Pending, Rejected), (Approved, Executed), (Approved, Failed)}"

text \<open>
  What one operation may do to the row stored under an id: create it as pending, leave a
  resolved row as it is, and leave a pending row pending or resolve it.
\<close>

definition row_step :: "PendingChange option \<Rightarrow> PendingChange option \<Rightarrow> bool" where
  "row_step before after \<longleftrightarrow>
     (case before of
        None \<Rightarrow> (case after of None \<Rightarrow> True | Some change' \<Rightarrow> status change' = Pending)
      | Some change \<Rightarrow>
          (case after of
             None \<Rightarrow> False
           | Some change' \<Rightarrow>
               if status change = Pending
               then status change' = Pending \<or> (Pending, status change') \<in> handler_transitions
               else change' = change))"

subsection \<open>Two approvals of one proposal\<close>

text \<open>Two calls of \<open>approve_change\<close> for the same id, the second after the first has returned.\<close>

definition approve_twice_in_turn ::
  "ads_client option \<Rightarrow> nat \<Rightarrow> nat \<Rightarrow> nat \<Rightarrow> world \<Rightarrow> (tool_result \<times> tool_result) \<times> world" where
  "approve_twice_in_turn client t1 t2 i w =
     (let (resultA, w1) = approve_change client t1 i w;
          (resultB, w2) = approve_change client t2 i w1
      in ((resultA, resultB), w2))"

text \<open>
  The two calls overlapping: the handler yields at each \<open>await\<close>, so the second call
  can read the proposal before the first call has written anything. Both reads see the
  same stored row; each call then continues with the row it read.
\<close>

definition approve_twice_interleaved ::
  "ads_client option \<Rightarrow> nat \<Rightarrow> nat \<Rightarrow> nat \<Rightarrow> world \<Rightarrow> (tool_result \<times> tool_result) \<times> world" where
  "approve_twice_interleaved client t1 t2 i w =
     (let readA = approve_change_guard i w;
          readB = approve_change_guard i w;
          (resultA, w1) = (case readA of Inl r \<Rightarrow> (r, w)
                           | Inr change \<Rightarrow> approve_change_execute client t1 i change w);
          (resultB, w2) = (case readB of Inl r \<Rightarrow> (r, w1)
                           | Inr change \<Rightarrow> approve_change_execute client t2 i change w1)
      in ((resultA, resultB), w2))"

section \<open>Example data\<close>

text \<open>
  The sample period of the specification: spend 259.40, sales 767.52 and the royalty per
  sale 2.80, each as the binary64 value of the decimal.
\<close>

definition example_metrics :: CampaignMetrics where
  "example_metrics =
     \<lparr> metricsCampaignId = ''all'', date = ''2025-12-10'',
       impressions = Fin 32830, clicks = Fin 331, spend = Fin (2281706529960755 / 8796093022208),
       sales = Fin (1687794329101271 / 2199023255552), orders = Fin 48, unitsSold = Fin 48,
       kenpRoyalties = None, kenpPagesRead = None \<rparr>"

definition example_config :: AnalysisConfig where
  "example_config =
     \<lparr> royaltyPerSale = Fin (3152519739159347 / 1125899906842624), kenpRatePerPage = None \<rparr>"

definition negative_royalty_config :: AnalysisConfig where
  "negative_royalty_config = \<lparr> royaltyPerSale = Fin (- 1), kenpRatePerPage = None \<rparr>"

definition day :: "string \<Rightarrow> number \<Rightarrow> CampaignMetrics" where
  "day d s =
     \<lparr> metricsCampaignId = ''c1'', date = d, impressions = Fin 100, clicks = Fin 10,
       spend = s, sales = Fin 20, orders = Fin 2, unitsSold = Fin 2,
       kenpRoyalties = None, kenpPagesRead = None \<rparr>"

definition nan_royalty_config :: AnalysisConfig where
  "nan_royalty_config = \<lparr> royaltyPerSale = NaN, kenpRatePerPage = None \<rparr>"

text \<open>A record whose spend and sales are the finite number \<open>2 ^ 1023\<close>.\<close>

definition huge_day :: CampaignMetrics where
  "huge_day =
     \<lparr> metricsCampaignId = ''c1'', date = ''2025-12-10'', impressions = Fin 100,
       clicks = Fin 10, spend = Fin (2 ^ 1023), sales = Fin (2 ^ 1023), orders = Fin 2,
       unitsSold = Fin 2, kenpRoyalties = None, kenpPagesRead = None \<rparr>"

text \<open>The binary64 values of the decimals 0.1, 0.2 and 0.3.\<close>

definition tenth :: real where
  "tenth = 3602879701896397 / 36028797018963968"

definition two_tenths :: real where
  "two_tenths = 3602879701896397 / 18014398509481984"

definition three_tenths :: real where
  "three_tenths = 5404319552844595 / 18014398509481984"

text \<open>The bids 1.10 and 0.85 as binary64 values.\<close>

definition bid_1_10 :: number where
  "bid_1_10 = Fin (2476979795053773 / 2251799813685248)"

definition bid_0_85 :: number where
  "bid_0_85 = Fin (7656119366529843 / 9007199254740992)"

definition example_keyword :: Keyword where
  "example_keyword =
     \<lparr> keywordText = ''epic fantasy books'', keywordState = ''enabled'', bid = bid_1_10 \<rparr>"

definition example_change :: "change_status \<Rightarrow> PendingChange" where
  "example_change st =
     \<lparr> change_id = 1, changeType = BidAdjustment, targetType = TKeyword, targetId = ''kw1'',
       targetName = Some ''epic fantasy books'',
       currentValue = [(''bid'', JNum bid_1_10)],
       proposedValue = [(''bid'', JNum bid_0_85)],
       reason = Some ''ACOS above break-even'', status = st, createdAt = 10,
       reviewedAt = None, executedAt = None, errorMessage = None \<rparr>"

definition example_world :: "change_status \<Rightarrow> world" where
  "example_world st =
     \<lparr> db = \<lparr> keywords_table = [''kw1'' \<mapsto> example_keyword], campaigns_table = Map.empty,
              pending_changes = [1 \<mapsto> example_change st], pending_changes_id_seq = 2,
              change_history = [] \<rparr>,
       ads_calls = [] \<rparr>"

definition empty_world :: world where
  "empty_world =
     \<lparr> db = \<lparr> keywords_table = [''kw1'' \<mapsto> example_keyword], campaigns_table = Map.empty,
              pending_changes = Map.empty, pending_changes_id_seq = 1,
              change_history = [] \<rparr>,
       ads_calls = [] \<rparr>"

definition accepting_client :: ads_client where
  "accepting_client call = None"

definition throwing_client :: "string \<Rightarrow> ads_client" where
  "throwing_client msg call = Some (ErrorObject msg)"

section \<open>Properties of the rounding\<close>

text \<open>
  \<open>ilog2\<close> is the binary exponent, so \<open>round_double\<close> can be computed from a
  given exponent and a given nearest integer; binary fractions with at most 53 bits are
  left as they are, and magnitudes from \<open>2 ^ 1024\<close> on become infinities.
\<close>

lemma powi_nat: "k \<ge> 0 \<Longrightarrow> (2::real) powi k = 2 ^ nat k"
  by (simp add: power_int_def)

lemma powi_neg: "k \<ge> 0 \<Longrightarrow> (2::real) powi (- k) = 1 / 2 ^ nat k"
  by (simp add: power_int_def inverse_eq_divide power_one_over)

lemma ilog2_bounds:
  assumes "x > 0"
  shows "2 powi ilog2 x \<le> x" and "x < 2 powi (ilog2 x + 1)"
proof -
  have "2 powi ilog2 x \<le> x \<and> x < 2 powi (ilog2 x + 1)"
  proof (cases "x \<ge> 1")
    case True
    define n where "n = \<lfloor>x\<rfloor>"
    have n: "n \<ge> 1" using True by (simp add: n_def)
    then have pos: "n > 0" by simp
    define b where "b = bitlen n"
    have b1: "b \<ge> 1" using pos by (auto simp: b_def bitlen_alt_def)
    from bitlen_bounds [OF pos]
    have lo: "2 ^ nat (b - 1) \<le> n" and hi: "n < 2 ^ nat b" by (simp_all add: b_def)
    have il: "ilog2 x = b - 1" using True by (simp add: ilog2_def n_def b_def)
    have "real_of_int (2 ^ nat (b - 1)) \<le> real_of_int n" using lo by (simp only: of_int_le_iff)
    then have "2 ^ nat (b - 1) \<le> real_of_int n" by simp
    moreover have "real_of_int n \<le> x" by (simp add: n_def)
    ultimately have "2 ^ nat (b - 1) \<le> x" by linarith
    then have A: "2 powi (b - 1) \<le> x" using b1 by (simp add: powi_nat)
    have "n + 1 \<le> 2 ^ nat b" using hi by simp
    then have "real_of_int (n + 1) \<le> real_of_int (2 ^ nat b)" by (simp only: of_int_le_iff)
    then have "real_of_int n + 1 \<le> 2 ^ nat b" by simp
    moreover have "x < real_of_int n + 1" by (simp add: n_def)
    ultimately have "x < 2 ^ nat b" by linarith
    then have B: "x < 2 powi b" using b1 by (simp add: powi_nat)
    show ?thesis using A B by (simp add: il)
  next
    case False
    define y where "y = 1 / x"
    have y1: "y > 1" using False assms by (simp add: y_def)
    define n where "n = \<lceil>y\<rceil> - 1"
    have n: "n \<ge> 1" using y1 unfolding n_def by linarith
    then have pos: "n > 0" by simp
    define b where "b = bitlen n"
    have b1: "b \<ge> 1" using pos by (auto simp: b_def bitlen_alt_def)
    from bitlen_bounds [OF pos]
    have lo: "2 ^ nat (b - 1) \<le> n" and hi: "n < 2 ^ nat b" by (simp_all add: b_def)
    have il: "ilog2 x = - b" using False by (simp add: ilog2_def n_def b_def y_def)
    have ny: "real_of_int n < y" and yn: "y \<le> real_of_int n + 1"
      unfolding n_def by linarith+
    have "n + 1 \<le> 2 ^ nat b" using hi by simp
    then have "real_of_int (n + 1) \<le> real_of_int (2 ^ nat b)" by (simp only: of_int_le_iff)
    then have "real_of_int n + 1 \<le> 2 ^ nat b" by simp
    with yn have "y \<le> 2 ^ nat b" by linarith
    then have "1 / x \<le> 2 ^ nat b" by (simp add: y_def)
    then have "1 / 2 ^ nat b \<le> x"
      using assms by (simp add: field_simps)
    then have A: "2 powi (- b) \<le> x" using b1 by (simp add: powi_neg)
    have "real_of_int (2 ^ nat (b - 1)) \<le> real_of_int n" using lo by (simp only: of_int_le_iff)
    then have "2 ^ nat (b - 1) \<le> real_of_int n" by simp
    with ny have "2 ^ nat (b - 1) < y" by linarith
    then have "2 ^ nat (b - 1) < 1 / x" by (simp add: y_def)
    then have "x < 1 / 2 ^ nat (b - 1)"
      using assms by (simp add: field_simps)
    moreover have "2 powi (- b + 1) = (1::real) / 2 ^ nat (b - 1)"
      using powi_neg [of "b - 1"] b1 by simp
    ultimately have B: "x < 2 powi (- b + 1)" by simp
    show ?thesis using A B by (simp add: il)
  qed
  then show "2 powi ilog2 x \<le> x" and "x < 2 powi (ilog2 x + 1)" by simp_all
qed

lemma ilog2_eqI:
  assumes "2 powi k \<le> x" and "x < 2 powi (k + 1)"
  shows "ilog2 x = k"
proof -
  have "(0::real) < 2 powi k" by simp
  with assms(1) have pos: "x > 0" by linarith
  note b = ilog2_bounds [OF pos]
  have "(2::real) powi ilog2 x < 2 powi (k + 1)" using b(1) assms(2) by linarith
  then have "ilog2 x < k + 1"
    by (metis linorder_not_le one_le_numeral power_int_increasing)
  moreover have "(2::real) powi k < 2 powi (ilog2 x + 1)" using b(2) assms(1) by linarith
  then have "k < ilog2 x + 1"
    by (metis linorder_not_le one_le_numeral power_int_increasing)
  ultimately show ?thesis by simp
qed

lemma round_half_even_int: "round_half_even (of_int k) = k"
  by (simp add: round_half_even_def)

lemma round_half_even_nearest:
  assumes "\<bar>y - of_int m\<bar> < 1 / 2"
  shows "round_half_even y = m"
proof (cases "y \<ge> of_int m")
  case True
  with assms have "\<lfloor>y\<rfloor> = m" by (intro floor_unique) (auto simp: abs_if split: if_splits)
  then show ?thesis using assms True by (simp add: round_half_even_def Let_def)
next
  case False
  with assms have f: "\<lfloor>y\<rfloor> = m - 1"
    by (intro floor_unique) (auto simp: abs_if split: if_splits)
  have "y - of_int (m - 1) > 1 / 2" using assms False by (auto simp: abs_if split: if_splits)
  then show ?thesis using f by (simp add: round_half_even_def Let_def)
qed

lemma round_half_even_tie_below:
  assumes "y = of_int m + 1 / 2" and "even m"
  shows "round_half_even y = m"
proof -
  have "\<lfloor>y\<rfloor> = m" using assms(1) by (intro floor_unique) auto
  then show ?thesis using assms by (simp add: round_half_even_def Let_def)
qed

lemma round_half_even_tie_above:
  assumes "y = of_int m - 1 / 2" and "even m"
  shows "round_half_even y = m"
proof -
  have f: "\<lfloor>y\<rfloor> = m - 1" using assms(1) by (intro floor_unique) auto
  then show ?thesis using assms by (simp add: round_half_even_def Let_def)
qed

lemma round_half_even_ge: "of_int k \<le> y \<Longrightarrow> k \<le> round_half_even y"
proof -
  assume "of_int k \<le> y"
  then have "k \<le> \<lfloor>y\<rfloor>" by (simp add: le_floor_iff)
  then show ?thesis by (auto simp add: round_half_even_def Let_def)
qed

lemma round_half_even_le: "y \<le> of_int k \<Longrightarrow> round_half_even y \<le> k"
proof -
  assume le: "y \<le> of_int k"
  show ?thesis
  proof (cases "y = of_int k")
    case True
    then show ?thesis by (simp add: round_half_even_int)
  next
    case False
    with le have "y < of_int k" by simp
    then have "\<lfloor>y\<rfloor> < k" by (simp add: floor_less_iff)
    then show ?thesis by (auto simp add: round_half_even_def Let_def)
  qed
qed

lemma round_double_eqI:
  assumes "2 powi e \<le> \<bar>x\<bar>" and "\<bar>x\<bar> < 2 powi (e + 1)"
    and "q = max (e - 52) (- 1074)"
    and "round_half_even (x / 2 powi q) = m"
    and "\<bar>of_int m * 2 powi q\<bar> < (2::real) powi 1024"
  shows "round_double x = Fin (of_int m * 2 powi q)"
proof -
  have "(0::real) < 2 powi e" by simp
  with assms(1) have "0 < \<bar>x\<bar>" by linarith
  then have nz: "x \<noteq> 0" by simp
  have e: "ilog2 \<bar>x\<bar> = e" using assms(1,2) by (rule ilog2_eqI)
  show ?thesis
    using nz assms(5) unfolding round_double_def e Let_def assms(3) [symmetric] assms(4)
    by (simp del: power_int_numeral)
qed

lemma round_double_not_NaN: "round_double x \<noteq> NaN"
  by (simp add: round_double_def Let_def)

lemma round_double_0: "round_double 0 = Fin 0"
  by (simp add: round_double_def)

lemma round_double_dyadic:
  assumes m: "\<bar>m\<bar> < 2 ^ 53" and q: "q \<ge> - 1074"
    and fin: "\<bar>of_int m * 2 powi q\<bar> < (2::real) powi 1024"
  shows "round_double (of_int m * 2 powi q) = Fin (of_int m * 2 powi q)"
proof (cases "m = 0")
  case True
  then show ?thesis by (simp add: round_double_0)
next
  case False
  define x :: real where "x = of_int m * 2 powi q"
  have ax: "\<bar>x\<bar> = of_int \<bar>m\<bar> * 2 powi q"
    by (simp add: x_def abs_mult)
  have "of_int \<bar>m\<bar> \<ge> (1::real)" using False by (simp add: abs_if)
  then have pos: "\<bar>x\<bar> > 0" unfolding ax by (intro mult_pos_pos) simp_all
  define e where "e = ilog2 \<bar>x\<bar>"
  note b = ilog2_bounds [OF pos, folded e_def]
  have "real_of_int \<bar>m\<bar> < 2 ^ 53"
    using m by (metis of_int_less_iff of_int_numeral of_int_power)
  then have "\<bar>x\<bar> < 2 ^ 53 * 2 powi q"
    unfolding ax by (intro mult_strict_right_mono) simp_all
  also have "\<dots> = 2 powi (53 + q)"
    by (simp add: power_int_add)
  finally have "(2::real) powi e < 2 powi (53 + q)" using b(1) by linarith
  then have "e < 53 + q"
    by (metis linorder_not_le one_le_numeral power_int_increasing)
  define q' where "q' = max (e - 52) (- 1074)"
  have q': "q' \<le> q" using \<open>e < 53 + q\<close> q by (simp add: q'_def)
  have decomp: "(2::real) powi q = 2 ^ nat (q - q') * 2 powi q'"
  proof -
    have "(2::real) powi q = 2 powi ((q - q') + q')" by simp
    also have "\<dots> = 2 powi (q - q') * 2 powi q'" by (subst power_int_add) simp_all
    also have "(2::real) powi (q - q') = 2 ^ nat (q - q')" using q' by (simp add: powi_nat)
    finally show ?thesis .
  qed
  have quot: "x / 2 powi q' = of_int (m * 2 ^ nat (q - q'))"
    by (simp add: x_def decomp)
  have r: "round_half_even (x / 2 powi q') = m * 2 ^ nat (q - q')"
    unfolding quot by (rule round_half_even_int)
  have restore: "of_int (m * 2 ^ nat (q - q')) * 2 powi q' = x"
    by (simp add: x_def decomp)
  have "round_double x = Fin (of_int (m * 2 ^ nat (q - q')) * 2 powi q')"
    using b(1) b(2) q'_def r
  proof (rule round_double_eqI)
    show "\<bar>real_of_int (m * 2 ^ nat (q - q')) * 2 powi q'\<bar> < 2 powi 1024"
      unfolding restore using fin by (simp add: x_def)
  qed
  then show ?thesis unfolding restore by (simp add: x_def)
qed

lemma round_double_int:
  assumes "\<bar>n\<bar> < 2 ^ 53"
  shows "round_double (of_int n) = Fin (of_int n)"
proof -
  have "\<bar>real_of_int n\<bar> < 2 ^ 53"
    using assms by (metis of_int_abs of_int_less_iff of_int_numeral of_int_power)
  also have "\<dots> < (2::real) ^ 1024" by (rule power_strict_increasing) simp_all
  finally have "\<bar>of_int n * 2 powi 0\<bar> < (2::real) powi 1024" by simp
  from round_double_dyadic [OF assms _ this] show ?thesis by simp
qed

lemma round_double_overflow:
  assumes "2 powi 1024 \<le> \<bar>x\<bar>"
  shows "round_double x = (if x > 0 then PInf else NInf)"
proof -
  have "(0::real) < 2 powi 1024" by simp
  with assms have pos: "\<bar>x\<bar> > 0" by linarith
  then have nz: "x \<noteq> 0" by simp
  define e where "e = ilog2 \<bar>x\<bar>"
  note b = ilog2_bounds [OF pos, folded e_def]
  have "(2::real) powi 1024 < 2 powi (e + 1)" using assms b(2) by linarith
  then have e: "1024 < e + 1"
    by (metis linorder_not_le one_le_numeral power_int_increasing)
  define q where "q = e - 52"
  have q: "max (e - 52) (- 1074) = q" using e by (simp add: q_def)
  have pe: "(2::real) powi e = 2 ^ 52 * 2 powi q"
  proof -
    have "(2::real) powi e = 2 powi (52 + q)" by (simp add: q_def)
    also have "\<dots> = 2 powi 52 * 2 powi q" by (subst power_int_add) simp_all
    finally show ?thesis by simp
  qed
  define r where "r = round_half_even (x / 2 powi q)"
  have big: "\<bar>of_int r * 2 powi q\<bar> \<ge> (2::real) powi 1024"
  proof (cases "x > 0")
    case True
    then have "2 ^ 52 * 2 powi q \<le> x" using b(1) by (simp add: pe)
    then have "real_of_int (2 ^ 52) \<le> x / 2 powi q" by (simp add: field_simps)
    then have "2 ^ 52 \<le> r" unfolding r_def by (rule round_half_even_ge)
    then have "real_of_int (2 ^ 52) \<le> real_of_int r" by (simp only: of_int_le_iff)
    then have "2 ^ 52 * 2 powi q \<le> real_of_int r * 2 powi q"
      by (intro mult_right_mono) simp_all
    then have "2 powi e \<le> real_of_int r * 2 powi q" by (simp add: pe)
    moreover have "(2::real) powi 1024 \<le> 2 powi e"
      using e by (intro power_int_increasing) simp_all
    ultimately show ?thesis by linarith
  next
    case False
    with nz have neg: "x < 0" by simp
    then have "2 ^ 52 * 2 powi q \<le> - x" using b(1) by (simp add: pe)
    then have "x / 2 powi q \<le> real_of_int (- (2 ^ 52))" by (simp add: field_simps)
    then have "r \<le> - (2 ^ 52)" unfolding r_def by (rule round_half_even_le)
    then have "real_of_int r \<le> real_of_int (- (2 ^ 52))" by (simp only: of_int_le_iff)
    then have "real_of_int r * 2 powi q \<le> - (2 ^ 52) * 2 powi q"
      by (intro mult_right_mono) simp_all
    then have "real_of_int r * 2 powi q \<le> - (2 powi e)" by (simp add: pe)
    moreover have "(2::real) powi 1024 \<le> 2 powi e"
      using e by (intro power_int_increasing) simp_all
    ultimately show ?thesis by linarith
  qed
  show ?thesis
    using nz big unfolding round_double_def e_def [symmetric] q Let_def r_def
    by (simp del: power_int_numeral)
qed

lemma round_double_numeral:
  "(numeral k :: int) < 2 ^ 53 \<Longrightarrow> round_double (numeral k) = Fin (numeral k)"
  using round_double_int [of "numeral k"] by simp

lemma round_double_neg_numeral:
  "(numeral k :: int) < 2 ^ 53 \<Longrightarrow> round_double (- numeral k) = Fin (- numeral k)"
  using round_double_int [of "- numeral k"] by simp

lemma round_double_1: "round_double 1 = Fin 1"
  using round_double_int [of 1] by simp

lemma jmul_100_not_NaN: "x \<noteq> NaN \<Longrightarrow> jmul x (Fin 100) \<noteq> NaN"
  by (cases x) (simp_all add: round_double_not_NaN)

lemma jdiv_pos_not_NaN: "x \<noteq> NaN \<Longrightarrow> b > 0 \<Longrightarrow> jdiv x (Fin b) \<noteq> NaN"
  by (cases x) (simp_all add: round_double_not_NaN)

lemma jdiv_nonzero_not_NaN: "x \<noteq> NaN \<Longrightarrow> b \<noteq> 0 \<Longrightarrow> jdiv x (Fin b) \<noteq> NaN"
  by (cases x) (simp_all add: round_double_not_NaN)

section \<open>Properties of the ROI calculator\<close>

subsection \<open>Sums of numbers\<close>

lemma jsum_snoc: "jsum (xs @ [x]) = jadd (jsum xs) x"
  by (simp add: jsum_def)

lemma jsum_Nil: "jsum [] = Fin 0"
  by (simp add: jsum_def)

lemma aggregateMetrics_snoc:
  "aggregateMetrics (ms @ [m]) = aggregate_step (aggregateMetrics ms) m"
  by (simp add: aggregateMetrics_def)

lemma aggregateMetrics_sums:
  "aggregateMetrics ms =
     \<lparr> agg_impressions = jsum (map impressions ms),
       agg_clicks = jsum (map clicks ms),
       agg_spend = jsum (map spend ms),
       agg_sales = jsum (map sales ms),
       agg_orders = jsum (map orders ms),
       agg_unitsSold = jsum (map unitsSold ms),
       agg_kenpRoyalties = jsum (map (\<lambda>m. nullish (kenpRoyalties m) (Fin 0)) ms) \<rparr>"
proof (induction ms rule: rev_induct)
  case Nil
  show ?case by (simp add: aggregateMetrics_def aggregate_zero_def jsum_Nil)
next
  case (snoc m ms)
  show ?case
    unfolding aggregateMetrics_snoc
    by (subst snoc.IH) (simp add: aggregate_step_def jsum_snoc)
qed

text \<open>Counts add exactly as long as the sum stays below \<open>2 ^ 53\<close>.\<close>

lemma is_count_iff: "is_count x \<longleftrightarrow> (\<exists>n::nat. x = Fin (real n))"
proof
  assume "is_count x"
  then obtain v where x: "x = Fin v" and v: "0 \<le> v" "of_int \<lfloor>v\<rfloor> = v"
    by (cases x) (auto simp: is_count_def)
  have "v = real (nat \<lfloor>v\<rfloor>)" using v by (metis of_int_of_nat_eq nat_0_le zero_le_floor)
  with x show "\<exists>n::nat. x = Fin (real n)" by blast
next
  assume "\<exists>n::nat. x = Fin (real n)"
  then show "is_count x" by (auto simp: is_count_def)
qed

lemma jsum_counts_nat:
  "sum_list ns < 2 ^ 53 \<Longrightarrow> jsum (map (\<lambda>n. Fin (real n)) ns) = Fin (real (sum_list ns))"
proof (induction ns rule: rev_induct)
  case Nil
  show ?case by (simp add: jsum_Nil)
next
  case (snoc n ns)
  have "sum_list ns < 2 ^ 53" using snoc.prems by simp
  then have ih: "jsum (map (\<lambda>n. Fin (real n)) ns) = Fin (real (sum_list ns))"
    by (rule snoc.IH)
  have "\<bar>int (sum_list ns + n)\<bar> < 2 ^ 53"
    using snoc.prems by simp
  from round_double_int [OF this]
  have "round_double (real (sum_list ns) + real n) = Fin (real (sum_list ns) + real n)"
    by simp
  then show ?case by (simp add: jsum_snoc ih)
qed

lemma jsum_counts:
  assumes "list_all is_count xs" and "(\<Sum>x\<leftarrow>xs. val x) < 2 ^ 53"
  shows "jsum xs = Fin (\<Sum>x\<leftarrow>xs. val x)"
proof -
  define ns where "ns = map (\<lambda>x. nat \<lfloor>val x\<rfloor>) xs"
  have each: "x = Fin (real (nat \<lfloor>val x\<rfloor>))" if "x \<in> set xs" for x
  proof -
    from assms(1) that have "is_count x" by (simp add: list_all_iff)
    then obtain n :: nat where "x = Fin (real n)" by (auto simp: is_count_iff)
    then show ?thesis by simp
  qed
  have xs: "xs = map (\<lambda>n. Fin (real n)) ns"
    unfolding ns_def using each by (induction xs) auto
  have vals: "(\<Sum>x\<leftarrow>xs. val x) = real (sum_list ns)"
    by (subst xs) (simp add: comp_def sum_list_of_nat)
  have "real (sum_list ns) < 2 ^ 53" using assms(2) vals by simp
  then have "sum_list ns < 2 ^ 53"
    by (metis of_nat_less_iff of_nat_numeral of_nat_power)
  from jsum_counts_nat [OF this] show ?thesis
    by (simp add: vals flip: xs)
qed

lemma sum_list_val_mset:
  "mset xs = mset ys \<Longrightarrow> (\<Sum>x\<leftarrow>xs. val (f x)) = (\<Sum>x\<leftarrow>ys. val (f x))"
  by (metis mset_map sum_mset_sum_list)

lemma list_all_mset:
  "mset xs = mset ys \<Longrightarrow> list_all P (map f xs) = list_all P (map f ys)"
  by (metis list_all_iff mset_eq_setD set_map)

lemma counts_total:
  assumes "list_all is_count (map f ms)" and "(\<Sum>m\<leftarrow>ms. val (f m)) < 2 ^ 53"
    and "mset ms' = mset ms"
  shows "jsum (map f ms) = Fin (\<Sum>m\<leftarrow>ms. val (f m))"
    and "jsum (map f ms') = jsum (map f ms)"
proof -
  have a: "jsum (map f ms) = Fin (\<Sum>m\<leftarrow>ms. val (f m))"
    using jsum_counts [OF assms(1)] assms(2) by (simp add: comp_def)
  have "list_all is_count (map f ms')"
    using assms(1) list_all_mset [OF assms(3), of is_count f] by blast
  moreover have "(\<Sum>m\<leftarrow>ms'. val (f m)) < 2 ^ 53"
    using assms(2) sum_list_val_mset [OF assms(3), of f] by simp
  ultimately have "jsum (map f ms') = Fin (\<Sum>m\<leftarrow>ms'. val (f m))"
    using jsum_counts [of "map f ms'"] by (simp add: comp_def)
  then show "jsum (map f ms') = jsum (map f ms)"
    using a sum_list_val_mset [OF assms(3), of f] by simp
  show "jsum (map f ms) = Fin (\<Sum>m\<leftarrow>ms. val (f m))" by (rule a)
qed

lemma calculateROI_period:
  "metrics \<noteq> [] \<Longrightarrow>
   period (calculateROI cId cName metrics config) =
     \<lparr> startDate = date (hd metrics), endDate = date (last metrics) \<rparr>"
  by (simp add: calculateROI_def Let_def hd_conv_nth last_conv_nth)

lemma sorted_hd_is_Min:
  fixes xs :: "'a::linorder list"
  assumes "sorted xs" and "xs \<noteq> []"
  shows "hd xs = Min (set xs)"
proof -
  from assms(2) obtain y ys where xs: "xs = y # ys" by (cases xs) auto
  with assms(1) have "\<forall>z\<in>set xs. y \<le> z" by auto
  then have "Min (set xs) = y"
    by (intro Min_eqI) (auto simp: xs)
  then show ?thesis by (simp add: xs)
qed

lemma sorted_last_is_Max:
  fixes xs :: "'a::linorder list"
  assumes "sorted xs" and "xs \<noteq> []"
  shows "last xs = Max (set xs)"
proof -
  from assms(2) have xs: "xs = butlast xs @ [last xs]" by simp
  from assms(1) have "sorted (butlast xs @ [last xs])" using xs by simp
  then have "\<forall>z\<in>set (butlast xs). z \<le> last xs"
    by (simp add: sorted_append)
  then have "\<forall>z\<in>set xs. z \<le> last xs"
    by (subst (asm) xs) (metis xs Un_iff insert_iff list.set(2) order_refl set_append empty_iff empty_set)
  then have "Max (set xs) = last xs"
    using assms(2) by (intro Max_eqI) auto
  then show ?thesis by simp
qed

subsection \<open>Roundings of the example data\<close>

lemma round_1_10_raw: "round_double (11 / 10) = Fin (2476979795053773 / 2251799813685248)"
proof -
  have r: "round_half_even ((11 / 10) / 2 powi (- 52)) = 4953959590107546"
    by (rule round_half_even_nearest) simp
  show ?thesis
    using round_double_eqI [of "0" "11 / 10" "- 52" "4953959590107546", OF _ _ _ r] by simp
qed

lemma round_0_85_raw: "round_double (17 / 20) = Fin (7656119366529843 / 9007199254740992)"
proof -
  have r: "round_half_even ((17 / 20) / 2 powi (- 53)) = 7656119366529843"
    by (rule round_half_even_nearest) simp
  show ?thesis
    using round_double_eqI [of "- 1" "17 / 20" "- 53" "7656119366529843", OF _ _ _ r] by simp
qed

lemma round_bids: "round_double 1.10 = bid_1_10" "round_double 0.85 = bid_0_85"
  by (simp_all add: bid_1_10_def bid_0_85_def round_1_10_raw round_0_85_raw)

lemma round_259_40: "round_double (1297 / 5) = Fin (2281706529960755 / 8796093022208)"
proof -
  have r: "round_half_even ((1297 / 5) / 2 powi (- 44)) = 4563413059921510"
    by (rule round_half_even_nearest) simp
  show ?thesis
    using round_double_eqI [of "8" "1297 / 5" "- 44" "4563413059921510", OF _ _ _ r] by simp
qed

lemma round_767_52: "round_double (19188 / 25) = Fin (1687794329101271 / 2199023255552)"
proof -
  have r: "round_half_even ((19188 / 25) / 2 powi (- 43)) = 6751177316405084"
    by (rule round_half_even_nearest) simp
  show ?thesis
    using round_double_eqI [of "9" "19188 / 25" "- 43" "6751177316405084", OF _ _ _ r] by simp
qed

lemma round_2_80: "round_double (14 / 5) = Fin (3152519739159347 / 1125899906842624)"
proof -
  have r: "round_half_even ((14 / 5) / 2 powi (- 51)) = 6305039478318694"
    by (rule round_half_even_nearest) simp
  show ?thesis
    using round_double_eqI [of "1" "14 / 5" "- 51" "6305039478318694", OF _ _ _ r] by simp
qed

lemma round_0_1: "round_double (1 / 10) = Fin (3602879701896397 / 36028797018963968)"
proof -
  have r: "round_half_even ((1 / 10) / 2 powi (- 56)) = 7205759403792794"
    by (rule round_half_even_nearest) simp
  show ?thesis
    using round_double_eqI [of "- 4" "1 / 10" "- 56" "7205759403792794", OF _ _ _ r] by simp
qed

lemma round_0_2: "round_double (1 / 5) = Fin (3602879701896397 / 18014398509481984)"
proof -
  have r: "round_half_even ((1 / 5) / 2 powi (- 55)) = 7205759403792794"
    by (rule round_half_even_nearest) simp
  show ?thesis
    using round_double_eqI [of "- 3" "1 / 5" "- 55" "7205759403792794", OF _ _ _ r] by simp
qed

lemma round_0_3: "round_double (3 / 10) = Fin (5404319552844595 / 18014398509481984)"
proof -
  have r: "round_half_even ((3 / 10) / 2 powi (- 54)) = 5404319552844595"
    by (rule round_half_even_nearest) simp
  show ?thesis
    using round_double_eqI [of "- 2" "3 / 10" "- 54" "5404319552844595", OF _ _ _ r] by simp
qed

lemma round_spend: "round_double (2281706529960755 / 8796093022208) = Fin (2281706529960755 / 8796093022208)"
  using round_double_dyadic [of "2281706529960755" "- 43"] by simp

lemma round_sales: "round_double (1687794329101271 / 2199023255552) = Fin (1687794329101271 / 2199023255552)"
  using round_double_dyadic [of "1687794329101271" "- 41"] by simp

lemma round_royalties: "round_double (9457559217478041 / 70368744177664) = Fin (1182194902184755 / 8796093022208)"
proof -
  have r: "round_half_even ((9457559217478041 / 70368744177664) / 2 powi (- 45)) = 4728779608739020"
    by (rule round_half_even_tie_below) simp_all
  show ?thesis
    using round_double_eqI [of "7" "9457559217478041 / 70368744177664" "- 45" "4728779608739020", OF _ _ _ r] by simp
qed

lemma round_royalties_sum: "round_double (1182194902184755 / 8796093022208) = Fin (1182194902184755 / 8796093022208)"
  using round_double_dyadic [of "1182194902184755" "- 43"] by simp

lemma round_spend_by_sales: "round_double (2281706529960755 / 6751177316405084) = Fin (6088355969042665 / 18014398509481984)"
proof -
  have r: "round_half_even ((2281706529960755 / 6751177316405084) / 2 powi (- 54)) = 6088355969042665"
    by (rule round_half_even_nearest) simp
  show ?thesis
    using round_double_eqI [of "- 2" "2281706529960755 / 6751177316405084" "- 54" "6088355969042665", OF _ _ _ r] by simp
qed

lemma round_acos: "round_double (152208899226066625 / 4503599627370496) = Fin (2378264050407291 / 70368744177664)"
proof -
  have r: "round_half_even ((152208899226066625 / 4503599627370496) / 2 powi (- 47)) = 4756528100814582"
    by (rule round_half_even_nearest) simp
  show ?thesis
    using round_double_eqI [of "5" "152208899226066625 / 4503599627370496" "- 47" "4756528100814582", OF _ _ _ r] by simp
qed

lemma round_profit: "round_double (- 125) = Fin (- 125)"
proof -
  have r: "round_half_even ((- 125) / 2 powi (- 46)) = - 8796093022208000"
    by (rule round_half_even_nearest) simp
  show ?thesis
    using round_double_eqI [of "6" "- 125" "- 46" "- 8796093022208000", OF _ _ _ r] by simp
qed

lemma round_tenth: "round_double (3602879701896397 / 36028797018963968) = Fin (3602879701896397 / 36028797018963968)"
  using round_double_dyadic [of "3602879701896397" "- 55"] by simp

lemma round_three_tenths: "round_double (5404319552844595 / 18014398509481984) = Fin (5404319552844595 / 18014398509481984)"
  using round_double_dyadic [of "5404319552844595" "- 54"] by simp

lemma round_tenth_plus_two: "round_double (10808639105689191 / 36028797018963968) = Fin (1351079888211149 / 4503599627370496)"
proof -
  have r: "round_half_even ((10808639105689191 / 36028797018963968) / 2 powi (- 54)) = 5404319552844596"
    by (rule round_half_even_tie_above) simp_all
  show ?thesis
    using round_double_eqI [of "- 2" "10808639105689191 / 36028797018963968" "- 54" "5404319552844596", OF _ _ _ r] by simp
qed

lemma round_forward_total: "round_double (10808639105689191 / 18014398509481984) = Fin (1351079888211149 / 2251799813685248)"
proof -
  have r: "round_half_even ((10808639105689191 / 18014398509481984) / 2 powi (- 53)) = 5404319552844596"
    by (rule round_half_even_tie_above) simp_all
  show ?thesis
    using round_double_eqI [of "- 1" "10808639105689191 / 18014398509481984" "- 53" "5404319552844596", OF _ _ _ r] by simp
qed

lemma round_one_half: "round_double (1 / 2) = Fin (1 / 2)"
  using round_double_dyadic [of "1" "- 1"] by simp

lemma round_backward_total: "round_double (21617278211378381 / 36028797018963968) = Fin (5404319552844595 / 9007199254740992)"
proof -
  have r: "round_half_even ((21617278211378381 / 36028797018963968) / 2 powi (- 53)) = 5404319552844595"
    by (rule round_half_even_nearest) simp
  show ?thesis
    using round_double_eqI [of "- 1" "21617278211378381 / 36028797018963968" "- 53" "5404319552844595", OF _ _ _ r] by simp
qed

lemma round_one_quarter: "round_double (1 / 4) = Fin (1 / 4)"
  using round_double_dyadic [of "1" "- 2"] by simp

lemma round_minus_one_half: "round_double (- (1 / 2)) = Fin (- (1 / 2))"
  using round_double_dyadic [of "- 1" "- 1"] by simp


lemma example_sums:
  "jsum (map impressions [example_metrics]) = Fin 32830"
  "jsum (map clicks [example_metrics]) = Fin 331"
  "jsum (map spend [example_metrics]) = Fin (2281706529960755 / 8796093022208)"
  "jsum (map sales [example_metrics]) = Fin (1687794329101271 / 2199023255552)"
  "jsum (map orders [example_metrics]) = Fin 48"
  "jadd (jmul (jsum (map unitsSold [example_metrics])) (royaltyPerSale example_config))
        (jsum (map (\<lambda>m. nullish (kenpRoyalties m) (Fin 0)) [example_metrics])) =
     Fin (1182194902184755 / 8796093022208)"
  by (simp_all add: jsum_def example_metrics_def example_config_def round_double_numeral
      round_double_0 round_spend round_sales round_royalties round_royalties_sum)

subsection \<open>The derived metrics\<close>

text \<open>
  Claim C4, as the code has it. Whenever the totals, summed in list order, and the
  estimated royalties are finite numbers, the derived fields are: ACOS the rounded
  quotient spend / sales, times 100, when sales is greater than zero, and 0 otherwise;
  likewise ROAS (sales / spend, guarded by spend), CTR (clicks / impressions x 100,
  guarded by impressions), CPC (spend / clicks) and conversion rate (orders / clicks x
  100), both guarded by clicks; estimated profit the rounded difference royalties -
  spend; profit margin profit / royalties x 100 when the royalties are greater than
  zero, and 0 otherwise; break-even ACOS royalties / sales x 100 when sales is greater
  than zero, otherwise 30 for a positive royalty per sale and 0 else. None of the
  derived fields is NaN.
\<close>

theorem calculateROI_formulas:
  assumes "jsum (map impressions metrics) = Fin imp"
    and "jsum (map clicks metrics) = Fin clk"
    and "jsum (map spend metrics) = Fin spd"
    and "jsum (map sales metrics) = Fin sal"
    and "jsum (map orders metrics) = Fin ords"
    and "jadd (jmul (jsum (map unitsSold metrics)) (royaltyPerSale config))
              (jsum (map (\<lambda>m. nullish (kenpRoyalties m) (Fin 0)) metrics)) = Fin roy"
  shows "let r = calculateROI cId cName metrics config
         in totalImpressions r = Fin imp \<and> totalClicks r = Fin clk \<and>
            totalSpend r = Fin spd \<and> totalSales r = Fin sal \<and> totalOrders r = Fin ords \<and>
            totalUnitsSold r = jsum (map unitsSold metrics) \<and>
            acos r = (if sal > 0 then jmul (round_double (spd / sal)) (Fin 100) else Fin 0) \<and>
            roas r = (if spd > 0 then round_double (sal / spd) else Fin 0) \<and>
            ctr r = (if imp > 0 then jmul (round_double (clk / imp)) (Fin 100) else Fin 0) \<and>
            cpc r = (if clk > 0 then round_double (spd / clk) else Fin 0) \<and>
            conversionRate r =
              (if clk > 0 then jmul (round_double (ords / clk)) (Fin 100) else Fin 0) \<and>
            estimatedRoyalties r = Fin roy \<and>
            estimatedProfit r = round_double (roy - spd) \<and>
            profitMargin r =
              (if roy > 0 then jmul (jdiv (round_double (roy - spd)) (Fin roy)) (Fin 100)
               else Fin 0) \<and>
            breakEvenAcos r =
              (if sal > 0 then jmul (round_double (roy / sal)) (Fin 100)
               else if jgt (royaltyPerSale config) (Fin 0) then Fin 30 else Fin 0) \<and>
            acos r \<noteq> NaN \<and> roas r \<noteq> NaN \<and> ctr r \<noteq> NaN \<and> cpc r \<noteq> NaN \<and>
            conversionRate r \<noteq> NaN \<and> estimatedRoyalties r \<noteq> NaN \<and>
            estimatedProfit r \<noteq> NaN \<and> profitMargin r \<noteq> NaN \<and> breakEvenAcos r \<noteq> NaN"
proof -
  let ?r = "calculateROI cId cName metrics config"
  note sums = assms(1-5)
  have totals: "totalImpressions ?r = Fin imp" "totalClicks ?r = Fin clk"
    "totalSpend ?r = Fin spd" "totalSales ?r = Fin sal" "totalOrders ?r = Fin ords"
    "totalUnitsSold ?r = jsum (map unitsSold metrics)"
    unfolding calculateROI_def aggregateMetrics_sums by (simp_all add: Let_def sums)
  have roy: "estimatedRoyalties ?r = Fin roy"
    unfolding calculateROI_def aggregateMetrics_sums by (simp add: Let_def assms(6))
  have profit: "estimatedProfit ?r = round_double (roy - spd)"
    unfolding calculateROI_def aggregateMetrics_sums
    by (simp add: Let_def assms(6) sums jsub_def)
  have acos: "acos ?r = (if sal > 0 then jmul (round_double (spd / sal)) (Fin 100) else Fin 0)"
    unfolding calculateROI_def aggregateMetrics_sums by (simp add: Let_def sums)
  have roas: "roas ?r = (if spd > 0 then round_double (sal / spd) else Fin 0)"
    unfolding calculateROI_def aggregateMetrics_sums by (simp add: Let_def sums)
  have ctr: "ctr ?r = (if imp > 0 then jmul (round_double (clk / imp)) (Fin 100) else Fin 0)"
    unfolding calculateROI_def aggregateMetrics_sums by (simp add: Let_def sums)
  have cpc: "cpc ?r = (if clk > 0 then round_double (spd / clk) else Fin 0)"
    unfolding calculateROI_def aggregateMetrics_sums by (simp add: Let_def sums)
  have conv: "conversionRate ?r =
      (if clk > 0 then jmul (round_double (ords / clk)) (Fin 100) else Fin 0)"
    unfolding calculateROI_def aggregateMetrics_sums by (simp add: Let_def sums)
  have margin: "profitMargin ?r =
      (if roy > 0 then jmul (jdiv (round_double (roy - spd)) (Fin roy)) (Fin 100) else Fin 0)"
    unfolding calculateROI_def aggregateMetrics_sums
    by (simp add: Let_def assms(6) sums jsub_def)
  have be: "breakEvenAcos ?r =
      (if sal > 0 then jmul (round_double (roy / sal)) (Fin 100)
       else if jgt (royaltyPerSale config) (Fin 0) then Fin 30 else Fin 0)"
    unfolding calculateROI_def aggregateMetrics_sums by (simp add: Let_def assms(6) sums)
  have n1: "acos ?r \<noteq> NaN" unfolding acos
    by (simp add: jmul_100_not_NaN round_double_not_NaN)
  have n2: "roas ?r \<noteq> NaN" unfolding roas by (simp add: round_double_not_NaN)
  have n3: "ctr ?r \<noteq> NaN" unfolding ctr
    by (simp add: jmul_100_not_NaN round_double_not_NaN)
  have n4: "cpc ?r \<noteq> NaN" unfolding cpc by (simp add: round_double_not_NaN)
  have n5: "conversionRate ?r \<noteq> NaN" unfolding conv
    by (simp add: jmul_100_not_NaN round_double_not_NaN)
  have n6: "estimatedRoyalties ?r \<noteq> NaN" unfolding roy by simp
  have n7: "estimatedProfit ?r \<noteq> NaN" unfolding profit by (simp add: round_double_not_NaN)
  have n8: "profitMargin ?r \<noteq> NaN" unfolding margin
    by (simp add: jmul_100_not_NaN jdiv_pos_not_NaN round_double_not_NaN)
  have n9: "breakEvenAcos ?r \<noteq> NaN" unfolding be
    by (simp add: jmul_100_not_NaN round_double_not_NaN)
  show ?thesis
    unfolding Let_def
    using totals roy profit acos roas ctr cpc conv margin be n1 n2 n3 n4 n5 n6 n7 n8 n9
    by blast
qed

text \<open>
  The sample period of the specification. In binary64 arithmetic 48 x 2.80 is
  134.39999999999998, the ACOS is 33.79716489472587 and the profit is -125.
\<close>

theorem calculateROI_formulas_witness:
  "jsum (map impressions [example_metrics]) = Fin 32830 \<and>
   jsum (map clicks [example_metrics]) = Fin 331 \<and>
   jsum (map spend [example_metrics]) = Fin (2281706529960755 / 8796093022208) \<and>
   jsum (map sales [example_metrics]) = Fin (1687794329101271 / 2199023255552) \<and>
   jsum (map orders [example_metrics]) = Fin 48 \<and>
   jadd (jmul (jsum (map unitsSold [example_metrics])) (royaltyPerSale example_config))
        (jsum (map (\<lambda>m. nullish (kenpRoyalties m) (Fin 0)) [example_metrics])) =
     Fin (1182194902184755 / 8796093022208) \<and>
   round_double (259.40) = spend example_metrics \<and>
   round_double (767.52) = sales example_metrics \<and>
   round_double (2.80) = royaltyPerSale example_config \<and>
   (let r = calculateROI ''all'' ''All Campaigns'' [example_metrics] example_config
    in estimatedRoyalties r = Fin (1182194902184755 / 8796093022208) \<and>
       acos r = Fin (2378264050407291 / 70368744177664) \<and>
       estimatedProfit r = Fin (- 125) \<and>
       profitMargin r \<noteq> NaN)"
proof -
  note h = example_sums
  have lits: "round_double (259.40) = spend example_metrics"
    "round_double (767.52) = sales example_metrics"
    "round_double (2.80) = royaltyPerSale example_config"
    by (simp_all add: example_metrics_def example_config_def round_259_40 round_767_52
        round_2_80)
  let ?r = "calculateROI ''all'' ''All Campaigns'' [example_metrics] example_config"
  note t = calculateROI_formulas [OF h, of "''all''" "''All Campaigns''", unfolded Let_def]
  from t have roy: "estimatedRoyalties ?r = Fin (1182194902184755 / 8796093022208)"
    by blast
  from t have "acos ?r =
      (if 0 < (1687794329101271 / 2199023255552 :: real)
       then jmul (round_double (2281706529960755 / 8796093022208 / (1687794329101271 / 2199023255552))) (Fin 100)
       else Fin 0)"
    by blast
  then have ac: "acos ?r = Fin (2378264050407291 / 70368744177664)"
    by (simp add: round_spend_by_sales round_acos)
  from t have "estimatedProfit ?r =
      round_double (1182194902184755 / 8796093022208 - 2281706529960755 / 8796093022208)"
    by blast
  then have pr: "estimatedProfit ?r = Fin (- 125)"
    by (simp add: round_profit)
  from t have nn: "profitMargin ?r \<noteq> NaN"
    by blast
  show ?thesis
    unfolding Let_def using h lits roy ac pr nn by simp
qed

text \<open>
  The guards are tests for \<open>> 0\<close>, not for \<open>= 0\<close>: with a negative royalty per sale the
  estimated royalties are negative, hence not zero, and the profit margin is 0 and not
  profit / royalties x 100. And finite inputs can give non-finite fields: two records
  with spend and sales of \<open>2 ^ 1023\<close> each sum to Infinity, and ACOS and ROAS are NaN.
\<close>

theorem calculateROI_formulas_counterexample:
  "is_fin (royaltyPerSale negative_royalty_config) \<and>
   estimatedRoyalties (calculateROI ''c1'' ''n'' [day ''2025-12-10'' (Fin 0)] negative_royalty_config) = Fin (- 2) \<and>
   estimatedRoyalties (calculateROI ''c1'' ''n'' [day ''2025-12-10'' (Fin 0)] negative_royalty_config) \<noteq> Fin 0 \<and>
   estimatedProfit (calculateROI ''c1'' ''n'' [day ''2025-12-10'' (Fin 0)] negative_royalty_config) = Fin (- 2) \<and>
   profitMargin (calculateROI ''c1'' ''n'' [day ''2025-12-10'' (Fin 0)] negative_royalty_config) = Fin 0 \<and>
   jmul (jdiv (Fin (- 2)) (Fin (- 2))) (Fin 100) = Fin 100 \<and>
   is_fin (spend huge_day) \<and> is_fin (sales huge_day) \<and> is_fin (royaltyPerSale example_config) \<and>
   totalSpend (calculateROI ''c1'' ''n'' [huge_day, huge_day] example_config) = PInf \<and>
   totalSales (calculateROI ''c1'' ''n'' [huge_day, huge_day] example_config) = PInf \<and>
   acos (calculateROI ''c1'' ''n'' [huge_day, huge_day] example_config) = NaN \<and>
   roas (calculateROI ''c1'' ''n'' [huge_day, huge_day] example_config) = NaN"
proof -
  have neg: "estimatedRoyalties (calculateROI ''c1'' ''n'' [day ''2025-12-10'' (Fin 0)] negative_royalty_config) = Fin (- 2)"
    "estimatedProfit (calculateROI ''c1'' ''n'' [day ''2025-12-10'' (Fin 0)] negative_royalty_config) = Fin (- 2)"
    "profitMargin (calculateROI ''c1'' ''n'' [day ''2025-12-10'' (Fin 0)] negative_royalty_config) = Fin 0"
    "jmul (jdiv (Fin (- 2)) (Fin (- 2))) (Fin 100) = Fin 100"
    by (simp_all add: calculateROI_def aggregateMetrics_def aggregate_step_def
        aggregate_zero_def day_def negative_royalty_config_def jsub_def Let_def
        round_double_0 round_double_1 round_double_numeral round_double_neg_numeral)
  have one: "round_double (0 + 2 ^ 1023) = Fin (2 ^ 1023)"
    using round_double_dyadic [of 1 1023] by simp
  have two: "round_double (2 ^ 1023 + 2 ^ 1023) = PInf"
    using round_double_overflow [of "2 ^ 1023 + 2 ^ 1023"] by simp
  have sum: "jadd (jadd (Fin 0) (Fin (2 ^ 1023))) (Fin (2 ^ 1023)) = PInf"
    by (simp only: jadd.simps one two)
  have agg: "agg_spend (aggregateMetrics [huge_day, huge_day]) = PInf"
    "agg_sales (aggregateMetrics [huge_day, huge_day]) = PInf"
    unfolding aggregateMetrics_sums jsum_def
    by (simp_all only: aggregate.simps list.map foldl.simps huge_day_def
        CampaignMetrics.simps sum)
  have big: "totalSpend (calculateROI ''c1'' ''n'' [huge_day, huge_day] example_config) = PInf"
    "totalSales (calculateROI ''c1'' ''n'' [huge_day, huge_day] example_config) = PInf"
    "acos (calculateROI ''c1'' ''n'' [huge_day, huge_day] example_config) = NaN"
    "roas (calculateROI ''c1'' ''n'' [huge_day, huge_day] example_config) = NaN"
    unfolding calculateROI_def Let_def by (simp_all add: agg)
  show ?thesis
    using neg big
    by (simp add: negative_royalty_config_def huge_day_def example_config_def)
qed

subsection \<open>Order of the input\<close>

text \<open>
  Claim C5, as the code has it. For a non-empty metrics list the totals are the sums
  over all records, added in list order, an absent page-read royalty counting as zero.
  The period runs from the date of the first record to the date of the last one; these
  are the least and the greatest date present when the list is ordered by date. The
  totals of the count fields (impressions, clicks, orders, units sold) are exact and the
  same for every permutation of the list, as long as the values are non-negative
  integers with a sum below \<open>2 ^ 53\<close>.
\<close>

theorem calculateROI_order:
  assumes "metrics \<noteq> []" and "mset metrics' = mset metrics"
  shows "(let r = calculateROI cId cName metrics config;
              r' = calculateROI cId cName metrics' config
          in totalImpressions r = jsum (map impressions metrics) \<and>
             totalClicks r = jsum (map clicks metrics) \<and>
             totalSpend r = jsum (map spend metrics) \<and>
             totalSales r = jsum (map sales metrics) \<and>
             totalOrders r = jsum (map orders metrics) \<and>
             totalUnitsSold r = jsum (map unitsSold metrics) \<and>
             estimatedRoyalties r =
               jadd (jmul (jsum (map unitsSold metrics)) (royaltyPerSale config))
                    (jsum (map (\<lambda>m. nullish (kenpRoyalties m) (Fin 0)) metrics)) \<and>
             period r = \<lparr> startDate = date (hd metrics), endDate = date (last metrics) \<rparr> \<and>
             (sorted (map date metrics) \<longrightarrow>
                startDate (period r) = Min (date ` set metrics) \<and>
                endDate (period r) = Max (date ` set metrics)) \<and>
             (list_all is_count (map impressions metrics) \<and>
              (\<Sum>m\<leftarrow>metrics. val (impressions m)) < 2 ^ 53 \<longrightarrow>
                totalImpressions r = Fin (\<Sum>m\<leftarrow>metrics. val (impressions m)) \<and>
                totalImpressions r' = totalImpressions r) \<and>
             (list_all is_count (map clicks metrics) \<and>
              (\<Sum>m\<leftarrow>metrics. val (clicks m)) < 2 ^ 53 \<longrightarrow>
                totalClicks r = Fin (\<Sum>m\<leftarrow>metrics. val (clicks m)) \<and>
                totalClicks r' = totalClicks r) \<and>
             (list_all is_count (map orders metrics) \<and>
              (\<Sum>m\<leftarrow>metrics. val (orders m)) < 2 ^ 53 \<longrightarrow>
                totalOrders r = Fin (\<Sum>m\<leftarrow>metrics. val (orders m)) \<and>
                totalOrders r' = totalOrders r) \<and>
             (list_all is_count (map unitsSold metrics) \<and>
              (\<Sum>m\<leftarrow>metrics. val (unitsSold m)) < 2 ^ 53 \<longrightarrow>
                totalUnitsSold r = Fin (\<Sum>m\<leftarrow>metrics. val (unitsSold m)) \<and>
                totalUnitsSold r' = totalUnitsSold r))"
proof -
  let ?r = "calculateROI cId cName metrics config"
  let ?r' = "calculateROI cId cName metrics' config"
  have totals:
    "totalImpressions ?r = jsum (map impressions metrics)"
    "totalClicks ?r = jsum (map clicks metrics)"
    "totalSpend ?r = jsum (map spend metrics)"
    "totalSales ?r = jsum (map sales metrics)"
    "totalOrders ?r = jsum (map orders metrics)"
    "totalUnitsSold ?r = jsum (map unitsSold metrics)"
    "estimatedRoyalties ?r =
       jadd (jmul (jsum (map unitsSold metrics)) (royaltyPerSale config))
            (jsum (map (\<lambda>m. nullish (kenpRoyalties m) (Fin 0)) metrics))"
    unfolding calculateROI_def aggregateMetrics_sums by (simp_all add: Let_def)
  have totals':
    "totalImpressions ?r' = jsum (map impressions metrics')"
    "totalClicks ?r' = jsum (map clicks metrics')"
    "totalOrders ?r' = jsum (map orders metrics')"
    "totalUnitsSold ?r' = jsum (map unitsSold metrics')"
    unfolding calculateROI_def aggregateMetrics_sums by (simp_all add: Let_def)
  have per: "period ?r = \<lparr> startDate = date (hd metrics), endDate = date (last metrics) \<rparr>"
    by (rule calculateROI_period [OF assms(1)])
  have srt: "startDate (period ?r) = Min (date ` set metrics) \<and>
             endDate (period ?r) = Max (date ` set metrics)"
    if "sorted (map date metrics)"
    using sorted_hd_is_Min [OF that] sorted_last_is_Max [OF that] assms(1)
    by (simp add: per hd_map last_map)
  have cnt: "jsum (map f metrics) = Fin (\<Sum>m\<leftarrow>metrics. val (f m)) \<and>
             jsum (map f metrics') = jsum (map f metrics)"
    if "list_all is_count (map f metrics) \<and> (\<Sum>m\<leftarrow>metrics. val (f m)) < 2 ^ 53" for f
    using counts_total [of f metrics metrics'] that assms(2) by blast
  show ?thesis
    unfolding Let_def totals totals'
    using per srt cnt [of impressions] cnt [of clicks] cnt [of orders] cnt [of unitsSold]
    unfolding totals
    by blast
qed

theorem calculateROI_order_witness:
  "[day ''2025-12-10'' (Fin 3), day ''2025-12-11'' (Fin 4)] \<noteq> [] \<and>
   mset [day ''2025-12-11'' (Fin 4), day ''2025-12-10'' (Fin 3)] =
     mset [day ''2025-12-10'' (Fin 3), day ''2025-12-11'' (Fin 4)] \<and>
   sorted (map date [day ''2025-12-10'' (Fin 3), day ''2025-12-11'' (Fin 4)]) \<and>
   list_all is_count
     (map impressions [day ''2025-12-10'' (Fin 3), day ''2025-12-11'' (Fin 4)]) \<and>
   (\<Sum>m\<leftarrow>[day ''2025-12-10'' (Fin 3), day ''2025-12-11'' (Fin 4)]. val (impressions m))
     < 2 ^ 53 \<and>
   list_all is_count (map clicks [day ''2025-12-10'' (Fin 3), day ''2025-12-11'' (Fin 4)]) \<and>
   (\<Sum>m\<leftarrow>[day ''2025-12-10'' (Fin 3), day ''2025-12-11'' (Fin 4)]. val (clicks m)) < 2 ^ 53 \<and>
   list_all is_count (map orders [day ''2025-12-10'' (Fin 3), day ''2025-12-11'' (Fin 4)]) \<and>
   (\<Sum>m\<leftarrow>[day ''2025-12-10'' (Fin 3), day ''2025-12-11'' (Fin 4)]. val (orders m)) < 2 ^ 53 \<and>
   list_all is_count
     (map unitsSold [day ''2025-12-10'' (Fin 3), day ''2025-12-11'' (Fin 4)]) \<and>
   (\<Sum>m\<leftarrow>[day ''2025-12-10'' (Fin 3), day ''2025-12-11'' (Fin 4)]. val (unitsSold m))
     < 2 ^ 53 \<and>
   totalImpressions (calculateROI ''c1'' ''n''
     [day ''2025-12-10'' (Fin 3), day ''2025-12-11'' (Fin 4)] example_config) = Fin 200 \<and>
   totalImpressions (calculateROI ''c1'' ''n''
     [day ''2025-12-11'' (Fin 4), day ''2025-12-10'' (Fin 3)] example_config) = Fin 200 \<and>
   totalClicks (calculateROI ''c1'' ''n''
     [day ''2025-12-11'' (Fin 4), day ''2025-12-10'' (Fin 3)] example_config) = Fin 20 \<and>
   period (calculateROI ''c1'' ''n'' [day ''2025-12-10'' (Fin 3), day ''2025-12-11'' (Fin 4)]
     example_config) = \<lparr> startDate = ''2025-12-10'', endDate = ''2025-12-11'' \<rparr> \<and>
   Min (date ` set [day ''2025-12-10'' (Fin 3), day ''2025-12-11'' (Fin 4)]) = ''2025-12-10''"
proof -
  let ?ms = "[day ''2025-12-10'' (Fin 3), day ''2025-12-11'' (Fin 4)]"
  let ?ms' = "[day ''2025-12-11'' (Fin 4), day ''2025-12-10'' (Fin 3)]"
  let ?r = "calculateROI ''c1'' ''n'' ?ms example_config"
  let ?r' = "calculateROI ''c1'' ''n'' ?ms' example_config"
  have h1: "?ms \<noteq> []" by simp
  have h2: "mset ?ms' = mset ?ms" by (simp add: add.commute)
  have h3: "sorted (map date ?ms)" by (simp add: day_def)
  have c: "list_all is_count (map impressions ?ms) \<and>
      (\<Sum>m\<leftarrow>?ms. val (impressions m)) < 2 ^ 53"
    "list_all is_count (map clicks ?ms) \<and> (\<Sum>m\<leftarrow>?ms. val (clicks m)) < 2 ^ 53"
    "list_all is_count (map orders ?ms) \<and> (\<Sum>m\<leftarrow>?ms. val (orders m)) < 2 ^ 53"
    "list_all is_count (map unitsSold ?ms) \<and> (\<Sum>m\<leftarrow>?ms. val (unitsSold m)) < 2 ^ 53"
    by (simp_all add: day_def is_count_def)
  have v: "(\<Sum>m\<leftarrow>?ms. val (impressions m)) = 200" "(\<Sum>m\<leftarrow>?ms. val (clicks m)) = 20"
    by (simp_all add: day_def)
  note t = calculateROI_order [OF h1 h2, of "''c1''" "''n''" example_config, unfolded Let_def]
  from t have "list_all is_count (map impressions ?ms) \<and>
      (\<Sum>m\<leftarrow>?ms. val (impressions m)) < 2 ^ 53 \<longrightarrow>
      totalImpressions ?r = Fin (\<Sum>m\<leftarrow>?ms. val (impressions m)) \<and>
      totalImpressions ?r' = totalImpressions ?r"
    by blast
  with c(1) have "totalImpressions ?r = Fin (\<Sum>m\<leftarrow>?ms. val (impressions m))"
    and "totalImpressions ?r' = totalImpressions ?r"
    by blast+
  then have i: "totalImpressions ?r = Fin 200" "totalImpressions ?r' = Fin 200"
    unfolding v by simp_all
  from t have "list_all is_count (map clicks ?ms) \<and>
      (\<Sum>m\<leftarrow>?ms. val (clicks m)) < 2 ^ 53 \<longrightarrow>
      totalClicks ?r = Fin (\<Sum>m\<leftarrow>?ms. val (clicks m)) \<and>
      totalClicks ?r' = totalClicks ?r"
    by blast
  with c(2) have "totalClicks ?r = Fin (\<Sum>m\<leftarrow>?ms. val (clicks m))"
    and "totalClicks ?r' = totalClicks ?r"
    by blast+
  then have k: "totalClicks ?r' = Fin 20"
    unfolding v by simp
  from t have p: "period ?r = \<lparr> startDate = date (hd ?ms), endDate = date (last ?ms) \<rparr>"
    by blast
  from t h3 have m: "startDate (period ?r) = Min (date ` set ?ms)"
    by blast
  have p': "period ?r = \<lparr> startDate = ''2025-12-10'', endDate = ''2025-12-11'' \<rparr>"
    using p by (simp add: day_def)
  have m': "Min (date ` set ?ms) = ''2025-12-10''"
    using m unfolding p' by simp
  show ?thesis
    using h1 h2 h3 c i k p' m' by blast
qed

text \<open>
  On a list that is not ordered by date the period is not the least and greatest date;
  and the total of an amount depends on the order of the records: spends of 0.1, 0.2 and
  0.3 add up to 0.6000000000000001, and in the opposite order to 0.6.
\<close>

theorem calculateROI_order_counterexample:
  "round_double 0.1 = Fin tenth \<and> round_double 0.2 = Fin two_tenths \<and>
   round_double 0.3 = Fin three_tenths \<and>
   mset [day ''2025-12-12'' (Fin three_tenths), day ''2025-12-11'' (Fin two_tenths),
         day ''2025-12-10'' (Fin tenth)] =
     mset [day ''2025-12-10'' (Fin tenth), day ''2025-12-11'' (Fin two_tenths),
           day ''2025-12-12'' (Fin three_tenths)] \<and>
   totalSpend (calculateROI ''c1'' ''n''
     [day ''2025-12-10'' (Fin tenth), day ''2025-12-11'' (Fin two_tenths),
      day ''2025-12-12'' (Fin three_tenths)] example_config) =
     Fin (1351079888211149 / 2251799813685248) \<and>
   totalSpend (calculateROI ''c1'' ''n''
     [day ''2025-12-12'' (Fin three_tenths), day ''2025-12-11'' (Fin two_tenths),
      day ''2025-12-10'' (Fin tenth)] example_config) =
     Fin (5404319552844595 / 9007199254740992) \<and>
   Fin (1351079888211149 / 2251799813685248) \<noteq> Fin (5404319552844595 / 9007199254740992) \<and>
   period (calculateROI ''c1'' ''n''
     [day ''2025-12-12'' (Fin three_tenths), day ''2025-12-11'' (Fin two_tenths),
      day ''2025-12-10'' (Fin tenth)] example_config) =
     \<lparr> startDate = ''2025-12-12'', endDate = ''2025-12-10'' \<rparr> \<and>
   Min (date ` set [day ''2025-12-12'' (Fin three_tenths), day ''2025-12-11'' (Fin two_tenths),
      day ''2025-12-10'' (Fin tenth)]) = ''2025-12-10'' \<and>
   Max (date ` set [day ''2025-12-12'' (Fin three_tenths), day ''2025-12-11'' (Fin two_tenths),
      day ''2025-12-10'' (Fin tenth)]) = ''2025-12-12''"
proof -
  let ?fwd = "[day ''2025-12-10'' (Fin tenth), day ''2025-12-11'' (Fin two_tenths),
      day ''2025-12-12'' (Fin three_tenths)]"
  let ?bwd = "[day ''2025-12-12'' (Fin three_tenths), day ''2025-12-11'' (Fin two_tenths),
      day ''2025-12-10'' (Fin tenth)]"
  have lits: "round_double 0.1 = Fin tenth" "round_double 0.2 = Fin two_tenths"
    "round_double 0.3 = Fin three_tenths"
    by (simp_all add: tenth_def two_tenths_def three_tenths_def round_0_1 round_0_2 round_0_3)
  have ms: "mset ?bwd = mset ?fwd" by (simp add: add.commute add.left_commute)
  have fwd: "jsum (map spend ?fwd) = Fin (1351079888211149 / 2251799813685248)"
    by (simp add: jsum_def day_def tenth_def two_tenths_def three_tenths_def round_tenth
        round_tenth_plus_two round_forward_total)
  have bwd: "jsum (map spend ?bwd) = Fin (5404319552844595 / 9007199254740992)"
    by (simp add: jsum_def day_def tenth_def two_tenths_def three_tenths_def
        round_three_tenths round_one_half round_backward_total)
  have tf: "totalSpend (calculateROI ''c1'' ''n'' ?fwd example_config) =
      Fin (1351079888211149 / 2251799813685248)"
    unfolding calculateROI_def aggregateMetrics_sums Let_def using fwd by simp
  have tb: "totalSpend (calculateROI ''c1'' ''n'' ?bwd example_config) =
      Fin (5404319552844595 / 9007199254740992)"
    unfolding calculateROI_def aggregateMetrics_sums Let_def using bwd by simp
  have ne: "Fin (1351079888211149 / 2251799813685248) \<noteq> Fin (5404319552844595 / 9007199254740992)"
    by simp
  have per: "period (calculateROI ''c1'' ''n'' ?bwd example_config) =
      \<lparr> startDate = ''2025-12-12'', endDate = ''2025-12-10'' \<rparr>"
    by (simp add: calculateROI_period day_def)
  have lt: "''2025-12-10'' < ''2025-12-11''" "''2025-12-11'' < ''2025-12-12''"
    "''2025-12-10'' < ''2025-12-12''"
    by simp_all
  have mn: "Min (date ` set ?bwd) = ''2025-12-10''"
    using lt by (simp add: day_def min_def)
  have mx: "Max (date ` set ?bwd) = ''2025-12-12''"
    using lt by (simp add: day_def max_def)
  show ?thesis
    using lits ms tf tb ne per mn mx by blast
qed

subsection \<open>The empty input\<close>

text \<open>
  Claim C10, as the code has it. For the empty metrics list and a finite royalty per
  sale the period is the pair of empty strings, and all totals and derived fields are 0
  except the break-even ACOS, which is 30 when the royalty per sale is positive.
\<close>

theorem calculateROI_empty:
  assumes "is_fin (royaltyPerSale config)"
  shows "calculateROI cId cName [] config =
     \<lparr> campaignId = cId, campaignName = cName,
       period = \<lparr> startDate = '''', endDate = '''' \<rparr>,
       totalSpend = Fin 0, totalSales = Fin 0, totalOrders = Fin 0, totalUnitsSold = Fin 0,
       totalImpressions = Fin 0, totalClicks = Fin 0,
       acos = Fin 0, roas = Fin 0, ctr = Fin 0, cpc = Fin 0, conversionRate = Fin 0,
       estimatedRoyalties = Fin 0, estimatedProfit = Fin 0, profitMargin = Fin 0,
       breakEvenAcos = (if val (royaltyPerSale config) > 0 then Fin 30 else Fin 0) \<rparr>"
proof -
  obtain rps where rps: "royaltyPerSale config = Fin rps"
    using assms by (cases "royaltyPerSale config") auto
  show ?thesis
    by (simp add: calculateROI_def aggregateMetrics_def aggregate_zero_def jsub_def rps Let_def
        round_double_0)
qed

theorem calculateROI_empty_witness:
  "is_fin (royaltyPerSale negative_royalty_config) \<and>
   period (calculateROI ''c1'' ''n'' [] negative_royalty_config) = \<lparr> startDate = '''', endDate = '''' \<rparr> \<and>
   breakEvenAcos (calculateROI ''c1'' ''n'' [] negative_royalty_config) = Fin 0"
proof -
  have h: "is_fin (royaltyPerSale negative_royalty_config)"
    by (simp add: negative_royalty_config_def)
  show ?thesis
    using h calculateROI_empty [OF h, of "''c1''" "''n''"]
    by (simp add: negative_royalty_config_def)
qed

text \<open>With the default royalty per sale of 2.80 the break-even ACOS of the empty input is 30.\<close>

theorem calculateROI_empty_breakEven_counterexample:
  "breakEvenAcos (calculateROI ''all'' ''All Campaigns'' [] example_config) = Fin 30 \<and>
   breakEvenAcos (calculateROI ''all'' ''All Campaigns'' [] example_config) \<noteq> Fin 0"
  by (simp add: calculateROI_def aggregateMetrics_def aggregate_zero_def jsub_def Let_def
      example_config_def round_double_0)

subsection \<open>Period comparison\<close>

lemma percentageChange_finite:
  "percentageChange (Fin c) (Fin p) = change_formula c p"
  by (simp add: percentageChange_def change_formula_def jsub_def)

lemma change_formula_self: "change_formula x x = Fin 0"
  by (simp add: change_formula_def round_double_0)

text \<open>
  Claim C6, as the code has it. For two reports whose compared fields are finite
  numbers, each of the six changes is (current - previous) / previous x 100, computed
  with rounding, when the previous value is not zero, and for a previous value of zero
  it is 100 if the current value is positive and 0 otherwise; comparing such a report
  with itself gives six changes of 0; the comparison carries both reports unchanged.
\<close>

theorem comparePeriods_changes:
  assumes "finite_report current" and "finite_report previous"
  shows "currentPeriod (comparePeriods current previous) = current \<and>
         previousPeriod (comparePeriods current previous) = previous \<and>
         changes (comparePeriods current previous) =
           \<lparr> spendChange =
               change_formula (val (totalSpend current)) (val (totalSpend previous)),
             salesChange =
               change_formula (val (totalSales current)) (val (totalSales previous)),
             acosChange = change_formula (val (acos current)) (val (acos previous)),
             profitChange =
               change_formula (val (estimatedProfit current))
                 (val (estimatedProfit previous)),
             impressionsChange =
               change_formula (val (totalImpressions current))
                 (val (totalImpressions previous)),
             clicksChange =
               change_formula (val (totalClicks current)) (val (totalClicks previous)) \<rparr> \<and>
         changes (comparePeriods current current) =
           \<lparr> spendChange = Fin 0, salesChange = Fin 0, acosChange = Fin 0,
             profitChange = Fin 0, impressionsChange = Fin 0, clicksChange = Fin 0 \<rparr>"
proof -
  have pc: "percentageChange a b = change_formula (val a) (val b)"
    if "is_fin a" "is_fin b" for a b
    using that by (cases a; cases b) (simp_all add: percentageChange_finite)
  from assms have fin:
    "is_fin (totalSpend current)" "is_fin (totalSales current)" "is_fin (acos current)"
    "is_fin (estimatedProfit current)" "is_fin (totalImpressions current)"
    "is_fin (totalClicks current)"
    "is_fin (totalSpend previous)" "is_fin (totalSales previous)" "is_fin (acos previous)"
    "is_fin (estimatedProfit previous)" "is_fin (totalImpressions previous)"
    "is_fin (totalClicks previous)"
    by (simp_all add: finite_report_def)
  show ?thesis
    by (simp add: comparePeriods_def pc fin change_formula_self)
qed

theorem comparePeriods_changes_witness:
  "finite_report (calculateROI ''c1'' ''n'' [day ''2025-12-10'' (Fin 5)]
     negative_royalty_config) \<and>
   finite_report (calculateROI ''c1'' ''n'' [] negative_royalty_config) \<and>
   changes (comparePeriods
       (calculateROI ''c1'' ''n'' [day ''2025-12-10'' (Fin 5)] negative_royalty_config)
       (calculateROI ''c1'' ''n'' [] negative_royalty_config)) =
     \<lparr> spendChange = Fin 100, salesChange = Fin 100, acosChange = Fin 100,
       profitChange = Fin 0, impressionsChange = Fin 100, clicksChange = Fin 100 \<rparr> \<and>
   finite_report (calculateROI ''c1'' ''n'' [day ''2025-12-03'' (Fin 10)]
     negative_royalty_config) \<and>
   spendChange (changes (comparePeriods
       (calculateROI ''c1'' ''n'' [day ''2025-12-10'' (Fin 5)] negative_royalty_config)
       (calculateROI ''c1'' ''n'' [day ''2025-12-03'' (Fin 10)] negative_royalty_config))) =
     Fin (- 50) \<and>
   acosChange (changes (comparePeriods
       (calculateROI ''c1'' ''n'' [day ''2025-12-10'' (Fin 5)] negative_royalty_config)
       (calculateROI ''c1'' ''n'' [day ''2025-12-03'' (Fin 10)] negative_royalty_config))) =
     Fin (- 50)"
proof -
  let ?prev = "calculateROI ''c1'' ''n'' [] negative_royalty_config"
  let ?d5 = "calculateROI ''c1'' ''n'' [day ''2025-12-10'' (Fin 5)] negative_royalty_config"
  let ?d10 = "calculateROI ''c1'' ''n'' [day ''2025-12-03'' (Fin 10)] negative_royalty_config"
  have ev0: "totalSpend ?prev = Fin 0" "totalSales ?prev = Fin 0"
    "acos ?prev = Fin 0" "estimatedProfit ?prev = Fin 0"
    "totalImpressions ?prev = Fin 0" "totalClicks ?prev = Fin 0"
    by (simp_all add: calculateROI_def aggregateMetrics_def aggregate_zero_def jsub_def
        Let_def negative_royalty_config_def round_double_0)
  have evd: "totalSpend ?d5 = Fin 5" "totalSales ?d5 = Fin 20"
    "acos ?d5 = Fin 25" "estimatedProfit ?d5 = Fin (- 7)"
    "totalImpressions ?d5 = Fin 100" "totalClicks ?d5 = Fin 10"
    "totalSpend ?d10 = Fin 10" "totalSales ?d10 = Fin 20"
    "acos ?d10 = Fin 50" "estimatedProfit ?d10 = Fin (- 12)"
    "totalImpressions ?d10 = Fin 100" "totalClicks ?d10 = Fin 10"
    by (simp_all add: calculateROI_def aggregateMetrics_def aggregate_step_def
        aggregate_zero_def jsub_def Let_def negative_royalty_config_def day_def
        round_double_0 round_double_numeral round_double_neg_numeral round_one_quarter
        round_one_half)
  have h2: "finite_report ?prev" by (simp add: finite_report_def ev0)
  have h3: "finite_report ?d5" by (simp add: finite_report_def evd)
  have h4: "finite_report ?d10" by (simp add: finite_report_def evd)
  have f1: "change_formula c 0 = (if c > 0 then Fin 100 else Fin 0)" for c
    by (simp add: change_formula_def)
  have f2: "change_formula 5 10 = Fin (- 50)" "change_formula 25 50 = Fin (- 50)"
    by (simp_all add: change_formula_def round_double_neg_numeral round_minus_one_half)
  show ?thesis
    using h2 h3 h4 comparePeriods_changes [OF h3 h2] comparePeriods_changes [OF h3 h4]
    by (simp add: ev0 evd f1 f2)
qed

text \<open>
  A report computed with a royalty per sale of NaN (what \<open>parseFloat\<close> returns for a
  setting that is not a number) has a NaN profit, and compared with itself its profit
  change is NaN, not 0.
\<close>

theorem comparePeriods_nan_counterexample:
  "estimatedProfit (calculateROI ''all'' ''All'' [] nan_royalty_config) = NaN \<and>
   profitChange (changes (comparePeriods
       (calculateROI ''all'' ''All'' [] nan_royalty_config)
       (calculateROI ''all'' ''All'' [] nan_royalty_config))) = NaN \<and>
   profitChange (changes (comparePeriods
       (calculateROI ''all'' ''All'' [] nan_royalty_config)
       (calculateROI ''all'' ''All'' [] nan_royalty_config))) \<noteq> Fin 0"
proof -
  have p: "estimatedProfit (calculateROI ''all'' ''All'' [] nan_royalty_config) = NaN"
    by (simp add: calculateROI_def aggregateMetrics_def aggregate_zero_def jsub_def Let_def
        nan_royalty_config_def)
  show ?thesis
    by (simp add: comparePeriods_def percentageChange_def p jsub_def)
qed

section \<open>Properties of the change workflow\<close>

subsection \<open>Effect of the storage operations and of the handlers on the tables\<close>

lemma update_lookup:
  "pending_changes (updatePendingChangeStatus now i st e d) j =
     (if j = i
      then map_option
             (\<lambda>row. row\<lparr> status := st, reviewedAt := Some now,
                          executedAt := (if st = Executed \<or> st = Failed then Some now
                                         else executedAt row),
                          errorMessage := (case e of None \<Rightarrow> errorMessage row
                                           | Some m \<Rightarrow> if m \<noteq> [] then Some m
                                                      else errorMessage row) \<rparr>)
             (pending_changes d i)
      else pending_changes d j)"
  by (simp add: updatePendingChangeStatus_def split: option.splits)

lemma update_frame:
  "keywords_table (updatePendingChangeStatus now i st e d) = keywords_table d"
  "campaigns_table (updatePendingChangeStatus now i st e d) = campaigns_table d"
  "change_history (updatePendingChangeStatus now i st e d) = change_history d"
  "pending_changes_id_seq (updatePendingChangeStatus now i st e d) = pending_changes_id_seq d"
  by (simp_all add: updatePendingChangeStatus_def split: option.splits)

lemma record_frame:
  "keywords_table (recordChangeHistory now p tt tid ct ov nv ok api d) = keywords_table d"
  "campaigns_table (recordChangeHistory now p tt tid ct ov nv ok api d) = campaigns_table d"
  "pending_changes (recordChangeHistory now p tt tid ct ov nv ok api d) = pending_changes d"
  "pending_changes_id_seq (recordChangeHistory now p tt tid ct ov nv ok api d) =
     pending_changes_id_seq d"
  by (simp_all add: recordChangeHistory_def)

lemma create_lookup:
  "pending_changes (snd (createPendingChange now ct tt tid tn cur prop rsn d)) j =
     (if j = pending_changes_id_seq d \<and> pending_changes d j = None
      then Some \<lparr> change_id = j, changeType = ct, targetType = tt, targetId = tid,
                  targetName = tn, currentValue = stored_payload cur,
                  proposedValue = stored_payload prop,
                  reason = rsn, status = Pending, createdAt = now,
                  reviewedAt = None, executedAt = None, errorMessage = None \<rparr>
      else pending_changes d j)"
  by (auto simp add: createPendingChange_def Let_def)

lemma create_frame:
  "keywords_table (snd (createPendingChange now ct tt tid tn cur prop rsn d)) = keywords_table d"
  "campaigns_table (snd (createPendingChange now ct tt tid tn cur prop rsn d)) = campaigns_table d"
  "change_history (snd (createPendingChange now ct tt tid tn cur prop rsn d)) = change_history d"
  by (simp_all add: createPendingChange_def Let_def)

lemma proposal_result_world:
  "db (snd (proposal_result res w)) = snd res"
  "ads_calls (snd (proposal_result res w)) = ads_calls w"
  by (simp_all add: proposal_result_def split: prod.splits sum.splits)

lemma row_step_refl: "row_step r r"
  by (simp add: row_step_def split: option.splits)

lemma row_step_create:
  "row_step (pending_changes d j)
     (pending_changes (snd (createPendingChange now ct tt tid tn cur prop rsn d)) j)"
  by (cases "j = pending_changes_id_seq d \<and> pending_changes d j = None")
     (auto simp add: create_lookup row_step_def split: option.splits)

lemma propose_row_step:
  "row_step (pending_changes (db w) j)
            (pending_changes (db (snd (propose_bid_change now k b r w))) j)"
  "row_step (pending_changes (db w) j)
            (pending_changes (db (snd (propose_keyword_state_change now k s r w))) j)"
  "row_step (pending_changes (db w) j)
            (pending_changes (db (snd (propose_budget_change now c b r w))) j)"
  "row_step (pending_changes (db w) j)
            (pending_changes (db (snd (propose_negative_keyword now c t m r w))) j)"
  by (simp_all add: propose_bid_change_def propose_keyword_state_change_def
      propose_budget_change_def propose_negative_keyword_def proposal_result_world
      row_step_create row_step_refl split: option.splits)

lemma approve_lookup:
  "pending_changes (db (snd (approve_change client now i w))) j =
     (if j = i
      then (case pending_changes (db w) i of
              None \<Rightarrow> None
            | Some change \<Rightarrow>
                if status change \<noteq> Pending then Some change
                else (case client of
                        None \<Rightarrow> Some (change\<lparr> status := Approved, reviewedAt := Some now \<rparr>)
                      | Some c \<Rightarrow>
                          (case c (dispatch change) of
                             None \<Rightarrow> Some (change\<lparr> status := Executed, reviewedAt := Some now,
                                                    executedAt := Some now \<rparr>)
                           | Some error \<Rightarrow>
                               Some (change\<lparr> status := Failed, reviewedAt := Some now,
                                      executedAt := Some now,
                                      errorMessage :=
                                        (if error_message_of error \<noteq> []
                                         then Some (error_message_of error)
                                         else errorMessage change) \<rparr>))))
      else pending_changes (db w) j)"
  by (simp add: approve_change_def approve_change_guard_def approve_change_execute_def
      getPendingChangeById_def update_lookup record_frame Let_def
      split: option.splits)

lemma reject_lookup:
  "pending_changes (db (snd (reject_change now i w))) j =
     (if j = i
      then (case pending_changes (db w) i of
              None \<Rightarrow> None
            | Some change \<Rightarrow>
                if status change \<noteq> Pending then Some change
                else Some (change\<lparr> status := Rejected, reviewedAt := Some now \<rparr>))
      else pending_changes (db w) j)"
  by (simp add: reject_change_def getPendingChangeById_def update_lookup
      split: option.splits)

lemma approve_row_step:
  "row_step (pending_changes (db w) j)
            (pending_changes (db (snd (approve_change client now i w))) j)"
  unfolding approve_lookup
  by (simp add: row_step_def handler_transitions_def split: option.splits)

lemma reject_row_step:
  "row_step (pending_changes (db w) j) (pending_changes (db (snd (reject_change now i w))) j)"
  unfolding reject_lookup
  by (simp add: row_step_def handler_transitions_def split: option.splits)

lemma run_operation_row_step:
  "row_step (pending_changes (db w) j)
            (pending_changes (db (snd (run_operation now opn w))) j)"
  by (cases opn) (simp_all add: propose_row_step approve_row_step reject_row_step)

lemma resolved_forever:
  "pending_changes (db w) j = Some change \<Longrightarrow> status change \<noteq> Pending \<Longrightarrow>
   pending_changes (db (run_operations ops w)) j = Some change"
proof (induction ops arbitrary: w)
  case Nil
  then show ?case by simp
next
  case (Cons a ops)
  obtain now opn where a: "a = (now, opn)" by (cases a)
  have "row_step (pending_changes (db w) j)
          (pending_changes (db (snd (run_operation now opn w))) j)"
    by (rule run_operation_row_step)
  with Cons.prems have "pending_changes (db (snd (run_operation now opn w))) j = Some change"
    by (simp add: row_step_def split: option.splits)
  then show ?case
    using Cons.IH Cons.prems(2) by (simp add: a)
qed

lemma run_operations_status:
  "pending_changes (db w) i = Some change \<Longrightarrow>
   \<exists>change'. pending_changes (db (run_operations ops w)) i = Some change' \<and>
     (status change' = status change \<or> (status change, status change') \<in> handler_transitions)"
proof (induction ops arbitrary: w change)
  case Nil
  then show ?case by simp
next
  case (Cons a ops)
  obtain now opn where a: "a = (now, opn)" by (cases a)
  let ?w1 = "snd (run_operation now opn w)"
  have step: "row_step (pending_changes (db w) i) (pending_changes (db ?w1) i)"
    by (rule run_operation_row_step)
  show ?case
  proof (cases "status change = Pending")
    case True
    from step Cons.prems True obtain change1
      where row1: "pending_changes (db ?w1) i = Some change1"
        and st1: "status change1 = Pending \<or> (Pending, status change1) \<in> handler_transitions"
      by (auto simp add: row_step_def split: option.splits)
    from Cons.IH [OF row1] obtain change'
      where row': "pending_changes (db (run_operations ops ?w1)) i = Some change'"
        and st': "status change' = status change1 \<or>
                  (status change1, status change') \<in> handler_transitions"
      by blast
    have "status change' = Pending \<or> (Pending, status change') \<in> handler_transitions"
      using st1 st' by (auto simp add: handler_transitions_def)
    with row' True show ?thesis by (simp add: a)
  next
    case False
    with Cons.prems have "pending_changes (db (run_operations (a # ops) w)) i = Some change"
      by (rule resolved_forever)
    then show ?thesis by simp
  qed
qed

lemma propose_created_pending:
  "fst (run_operation now opn w) = ProposalCreated i \<Longrightarrow>
   map_option status (pending_changes (db (snd (run_operation now opn w))) i) = Some Pending"
proof (cases opn)
  case (ApproveChange client j)
  assume "fst (run_operation now opn w) = ProposalCreated i"
  then show ?thesis
    by (simp add: ApproveChange approve_change_def approve_change_guard_def
        approve_change_execute_def Let_def split: option.splits if_splits)
next
  case (RejectChange j)
  assume "fst (run_operation now opn w) = ProposalCreated i"
  then show ?thesis
    by (simp add: RejectChange reject_change_def split: option.splits if_splits)
qed (auto simp add: propose_bid_change_def propose_keyword_state_change_def
      propose_budget_change_def propose_negative_keyword_def proposal_result_def
      createPendingChange_def Let_def split: option.splits if_splits)

lemma approve_pending_with_client:
  assumes "pending_changes (db w) i = Some change" and "status change = Pending"
  shows "fst (approve_change (Some client) now i w) =
           (case client (dispatch change) of
              None \<Rightarrow> ExecutedOk i
            | Some error \<Rightarrow> ExecutionFailed i (error_message_of error))"
    and "ads_calls (snd (approve_change (Some client) now i w)) =
           ads_calls w @ [dispatch change]"
    and "length (change_history (db (snd (approve_change (Some client) now i w)))) =
           Suc (length (change_history (db w)))"
  using assms
  by (simp_all add: approve_change_def approve_change_guard_def approve_change_execute_def
      getPendingChangeById_def recordChangeHistory_def update_frame Let_def
      split: option.splits)

lemma propose_bid_frame:
  "keywords_table (db (snd (propose_bid_change now k b r w))) = keywords_table (db w)"
  "campaigns_table (db (snd (propose_bid_change now k b r w))) = campaigns_table (db w)"
  "change_history (db (snd (propose_bid_change now k b r w))) = change_history (db w)"
  "ads_calls (snd (propose_bid_change now k b r w)) = ads_calls w"
  by (simp_all add: propose_bid_change_def proposal_result_world create_frame
      split: option.splits)

lemma reject_frame:
  "keywords_table (db (snd (reject_change now i w))) = keywords_table (db w)"
  "campaigns_table (db (snd (reject_change now i w))) = campaigns_table (db w)"
  "change_history (db (snd (reject_change now i w))) = change_history (db w)"
  "ads_calls (snd (reject_change now i w)) = ads_calls w"
  by (simp_all add: reject_change_def update_frame split: option.splits)

subsection \<open>The guard on resolved proposals\<close>

text \<open>
  Claim C1. For a proposal whose status is not pending, \<open>approve_change\<close> (with or
  without a client) and \<open>reject_change\<close> each return the conflict result naming the
  current status, flagged as an error, and leave the database and the backend log, hence
  the proposal's status, timestamps and payloads, exactly as they were.
\<close>

theorem resolved_proposal_conflict:
  assumes "pending_changes (db w) i = Some change" and "status change \<noteq> Pending"
  shows "approve_change client now i w = (Conflict i (status change), w) \<and>
         reject_change now i w = (Conflict i (status change), w) \<and>
         isError (Conflict i (status change))"
  using assms
  by (simp add: approve_change_def approve_change_guard_def reject_change_def
      getPendingChangeById_def)

theorem resolved_proposal_conflict_witness:
  "pending_changes (db (example_world Executed)) 1 = Some (example_change Executed) \<and>
   status (example_change Executed) \<noteq> Pending \<and>
   approve_change (Some accepting_client) 30 1 (example_world Executed) =
     (Conflict 1 Executed, example_world Executed) \<and>
   reject_change 30 1 (example_world Executed) = (Conflict 1 Executed, example_world Executed)"
proof -
  have h1: "pending_changes (db (example_world Executed)) 1 = Some (example_change Executed)"
    by (simp add: example_world_def)
  have h2: "status (example_change Executed) \<noteq> Pending"
    by (simp add: example_change_def)
  show ?thesis
    using h1 h2 resolved_proposal_conflict [OF h1 h2, of "Some accepting_client" 30]
    by (simp add: example_change_def)
qed

subsection \<open>Status transitions\<close>

text \<open>
  Claim C2, as the code has it. A row that an operation creates is pending, and a
  propose operation that reports an id has stored a pending proposal under it. Over any
  sequence of operations the status of a stored proposal stays as it is or changes from
  pending to approved, to rejected, to executed or to failed. A proposal that is no
  longer pending, approved ones included, is left exactly as it is by every sequence of
  operations. Whether an approval with a client ends in executed or failed is decided by
  the answer of the backend call alone.
\<close>

theorem status_transitions:
  "(pending_changes (db w) i = None \<longrightarrow>
      (\<forall>change'. pending_changes (db (snd (run_operation now opn w))) i = Some change' \<longrightarrow>
         status change' = Pending)) \<and>
   (\<forall>j. fst (run_operation now opn w) = ProposalCreated j \<longrightarrow>
      map_option status (pending_changes (db (snd (run_operation now opn w))) j) =
        Some Pending) \<and>
   (\<forall>change. pending_changes (db w) i = Some change \<longrightarrow>
      (\<exists>change'. pending_changes (db (run_operations ops w)) i = Some change' \<and>
         (status change' = status change \<or>
          (status change, status change') \<in> handler_transitions))) \<and>
   (\<forall>change. pending_changes (db w) i = Some change \<and> status change \<noteq> Pending \<longrightarrow>
      pending_changes (db (run_operations ops w)) i = Some change) \<and>
   (\<forall>change client. pending_changes (db w) i = Some change \<and> status change = Pending \<longrightarrow>
      map_option status
        (pending_changes (db (snd (approve_change (Some client) now i w))) i) =
        Some (case client (dispatch change) of None \<Rightarrow> Executed | Some error \<Rightarrow> Failed))"
proof -
  have step: "row_step (pending_changes (db w) i)
                (pending_changes (db (snd (run_operation now opn w))) i)"
    by (rule run_operation_row_step)
  have c1: "pending_changes (db w) i = None \<longrightarrow>
      (\<forall>change'. pending_changes (db (snd (run_operation now opn w))) i = Some change' \<longrightarrow>
         status change' = Pending)"
    using step by (simp add: row_step_def split: option.splits)
  have c3: "\<forall>change. pending_changes (db w) i = Some change \<longrightarrow>
      (\<exists>change'. pending_changes (db (run_operations ops w)) i = Some change' \<and>
         (status change' = status change \<or>
          (status change, status change') \<in> handler_transitions))"
    using run_operations_status by blast
  have c5: "\<forall>change client. pending_changes (db w) i = Some change \<and> status change = Pending \<longrightarrow>
      map_option status
        (pending_changes (db (snd (approve_change (Some client) now i w))) i) =
        Some (case client (dispatch change) of None \<Rightarrow> Executed | Some error \<Rightarrow> Failed)"
    by (simp add: approve_lookup split: option.splits)
  show ?thesis
    using c1 c3 c5 propose_created_pending resolved_forever by blast
qed

theorem status_transitions_witness:
  "pending_changes (db empty_world) 1 = None \<and>
   fst (run_operation 10 (ProposeBidChange ''kw1'' bid_0_85 None) empty_world) =
     ProposalCreated 1 \<and>
   map_option status (pending_changes (db (snd (run_operation 10
       (ProposeBidChange ''kw1'' bid_0_85 None) empty_world))) 1) = Some Pending \<and>
   pending_changes (db (example_world Pending)) 1 = Some (example_change Pending) \<and>
   status (example_change Pending) = Pending \<and>
   map_option status (pending_changes (db (snd (approve_change (Some accepting_client) 20 1
       (example_world Pending)))) 1) = Some Executed \<and>
   pending_changes (db (example_world Rejected)) 1 = Some (example_change Rejected) \<and>
   status (example_change Rejected) \<noteq> Pending \<and>
   pending_changes (db (run_operations
       [(20, ApproveChange (Some accepting_client) 1), (21, RejectChange 1)]
       (example_world Rejected))) 1 = Some (example_change Rejected)"
proof -
  have a1: "pending_changes (db empty_world) 1 = None"
    by (simp add: empty_world_def)
  have a2: "fst (run_operation 10 (ProposeBidChange ''kw1'' bid_0_85 None) empty_world) =
     ProposalCreated 1"
    by (simp add: empty_world_def propose_bid_change_def getKeywordById_def
        proposal_result_def createPendingChange_def Let_def)
  have b1: "pending_changes (db (example_world Pending)) 1 = Some (example_change Pending)"
    by (simp add: example_world_def)
  have b2: "status (example_change Pending) = Pending"
    by (simp add: example_change_def)
  have b3: "accepting_client (dispatch (example_change Pending)) = None"
    by (simp add: accepting_client_def)
  have c1: "pending_changes (db (example_world Rejected)) 1 = Some (example_change Rejected)"
    by (simp add: example_world_def)
  have c2: "status (example_change Rejected) \<noteq> Pending"
    by (simp add: example_change_def)
  show ?thesis
    using a1 a2 b1 b2 b3 c1 c2
      status_transitions [of empty_world 1 10 "ProposeBidChange ''kw1'' bid_0_85 None" "[]"]
      status_transitions [of "example_world Pending" 1 20 "RejectChange 1" "[]"]
      status_transitions [of "example_world Rejected" 1 20 "RejectChange 1"
        "[(20, ApproveChange (Some accepting_client) 1), (21, RejectChange 1)]"]
    by (metis option.simps(4))
qed

text \<open>
  An approval with a client takes the stored status from pending to executed at once,
  which is not a transition of the specified state machine; a proposal stored as
  approved is not executed by a later approval.
\<close>

theorem approve_pending_to_executed_counterexample:
  "map_option status (pending_changes (db (example_world Pending)) 1) = Some Pending \<and>
   map_option status (pending_changes (db (snd (run_operation 20
       (ApproveChange (Some accepting_client) 1) (example_world Pending)))) 1) =
     Some Executed \<and>
   (Pending, Executed) \<notin> specified_transitions \<and>
   fst (run_operation 21 (ApproveChange (Some accepting_client) 1) (example_world Approved)) =
     Conflict 1 Approved"
proof -
  have "map_option status (pending_changes (db (snd (approve_change (Some accepting_client) 20 1
       (example_world Pending)))) 1) = Some Executed"
    by (simp add: approve_lookup example_world_def example_change_def accepting_client_def)
  moreover have "fst (approve_change (Some accepting_client) 21 1 (example_world Approved)) =
     Conflict 1 Approved"
    by (simp add: approve_change_def approve_change_guard_def getPendingChangeById_def
        example_world_def example_change_def)
  ultimately show ?thesis
    by (simp add: example_world_def example_change_def specified_transitions_def)
qed

subsection \<open>Double approval\<close>

text \<open>
  Claim C3, as the code has it. The guard is a read of the stored status; the write that
  follows is an update whose only condition is the id. When two approvals of a pending
  proposal run one after the other, the first makes exactly one backend call, records
  exactly one history row and leaves the proposal executed or failed, and the second
  returns conflict with that status and changes nothing.
\<close>

theorem approve_twice_in_turn_once:
  assumes "pending_changes (db w) i = Some change" and "status change = Pending"
  shows "let w1 = snd (approve_change (Some client) t1 i w);
             st = (case client (dispatch change) of None \<Rightarrow> Executed | Some error \<Rightarrow> Failed)
         in approve_twice_in_turn (Some client) t1 t2 i w =
              ((fst (approve_change (Some client) t1 i w), Conflict i st), w1) \<and>
            fst (approve_change (Some client) t1 i w) =
              (case client (dispatch change) of
                 None \<Rightarrow> ExecutedOk i
               | Some error \<Rightarrow> ExecutionFailed i (error_message_of error)) \<and>
            map_option status (pending_changes (db w1) i) = Some st \<and>
            ads_calls w1 = ads_calls w @ [dispatch change] \<and>
            length (change_history (db w1)) = Suc (length (change_history (db w)))"
proof -
  let ?w1 = "snd (approve_change (Some client) t1 i w)"
  let ?st = "case client (dispatch change) of None \<Rightarrow> Executed | Some error \<Rightarrow> Failed"
  have st: "map_option status (pending_changes (db ?w1) i) = Some ?st"
    using assms by (simp add: approve_lookup split: option.splits)
  then obtain change' where row: "pending_changes (db ?w1) i = Some change'"
    and st': "status change' = ?st"
    by auto
  have "?st \<noteq> Pending" by (simp split: option.splits)
  with st' have "status change' \<noteq> Pending" by simp
  then have second: "approve_change (Some client) t2 i ?w1 = (Conflict i ?st, ?w1)"
    using row st'
    by (simp add: approve_change_def approve_change_guard_def getPendingChangeById_def)
  have twice: "approve_twice_in_turn (Some client) t1 t2 i w =
      ((fst (approve_change (Some client) t1 i w), Conflict i ?st), ?w1)"
    by (simp add: approve_twice_in_turn_def Let_def split_beta second)
  show ?thesis
    unfolding Let_def
    using twice st approve_pending_with_client [OF assms, of client t1]
    by simp
qed

theorem approve_twice_in_turn_once_witness:
  "pending_changes (db (example_world Pending)) 1 = Some (example_change Pending) \<and>
   status (example_change Pending) = Pending \<and>
   fst (approve_twice_in_turn (Some accepting_client) 20 21 1 (example_world Pending)) =
     (ExecutedOk 1, Conflict 1 Executed) \<and>
   ads_calls (snd (approve_twice_in_turn (Some accepting_client) 20 21 1
     (example_world Pending))) = [UpdateKeywordBid ''kw1'' (Some (JNum bid_0_85))]"
proof -
  have h1: "pending_changes (db (example_world Pending)) 1 = Some (example_change Pending)"
    by (simp add: example_world_def)
  have h2: "status (example_change Pending) = Pending"
    by (simp add: example_change_def)
  have d: "dispatch (example_change Pending) =
      UpdateKeywordBid ''kw1'' (Some (JNum bid_0_85))"
    by (simp add: dispatch_def example_change_def)
  have e: "ads_calls (example_world Pending) = []"
    by (simp add: example_world_def)
  show ?thesis
    using h1 h2 approve_twice_in_turn_once [OF h1 h2, of accepting_client 20 21]
    by (simp add: Let_def d e accepting_client_def)
qed

text \<open>
  When the second approval reads the proposal before the first has written, both calls
  pass the guard: the backend is called twice, two history rows are written and neither
  caller sees a conflict. The update itself does not look at the stored status: it turns
  a rejected proposal into an approved one.
\<close>

theorem approve_twice_interleaved_counterexample:
  "fst (approve_twice_interleaved (Some accepting_client) 20 21 1 (example_world Pending)) =
     (ExecutedOk 1, ExecutedOk 1) \<and>
   ads_calls (snd (approve_twice_interleaved (Some accepting_client) 20 21 1
     (example_world Pending))) =
     [UpdateKeywordBid ''kw1'' (Some (JNum bid_0_85)),
      UpdateKeywordBid ''kw1'' (Some (JNum bid_0_85))] \<and>
   map success (change_history (db (snd (approve_twice_interleaved (Some accepting_client)
     20 21 1 (example_world Pending))))) = [True, True] \<and>
   map_option status (pending_changes
     (updatePendingChangeStatus 30 1 Approved None (db (example_world Rejected))) 1) =
     Some Approved"
proof -
  have g: "approve_change_guard 1 (example_world Pending) = Inr (example_change Pending)"
    by (simp add: approve_change_guard_def getPendingChangeById_def example_world_def
        example_change_def)
  have d: "dispatch (example_change Pending) =
      UpdateKeywordBid ''kw1'' (Some (JNum bid_0_85))"
    by (simp add: dispatch_def example_change_def)
  have x: "approve_change_execute (Some accepting_client) t i (example_change Pending) w =
      (ExecutedOk i,
       w\<lparr> ads_calls := ads_calls w @ [UpdateKeywordBid ''kw1'' (Some (JNum bid_0_85))],
          db := recordChangeHistory t (Some i) TKeyword ''kw1'' BidAdjustment
                  (Some [(''bid'', JNum bid_1_10)])
                  [(''bid'', JNum bid_0_85)] True None
                  (updatePendingChangeStatus t i Executed None (db w)) \<rparr>)" for t i w
    by (simp add: approve_change_execute_def accepting_client_def d Let_def)
       (simp add: example_change_def)
  have u: "map_option status (pending_changes
     (updatePendingChangeStatus 30 1 Approved None (db (example_world Rejected))) 1) =
     Some Approved"
    by (simp add: update_lookup example_world_def)
  have both: "approve_twice_interleaved (Some accepting_client) 20 21 1 (example_world Pending) =
      ((ExecutedOk 1, ExecutedOk 1),
       snd (approve_change_execute (Some accepting_client) 21 1 (example_change Pending)
         (snd (approve_change_execute (Some accepting_client) 20 1 (example_change Pending)
            (example_world Pending)))))"
    unfolding approve_twice_interleaved_def g Let_def
    by (simp add: x)
  have calls: "ads_calls (snd (approve_change_execute (Some accepting_client) 21 1
         (example_change Pending)
         (snd (approve_change_execute (Some accepting_client) 20 1 (example_change Pending)
            (example_world Pending))))) =
     [UpdateKeywordBid ''kw1'' (Some (JNum bid_0_85)),
      UpdateKeywordBid ''kw1'' (Some (JNum bid_0_85))]"
    by (simp add: x) (simp add: example_world_def)
  have hist: "map success (change_history (db (snd (approve_change_execute
         (Some accepting_client) 21 1 (example_change Pending)
         (snd (approve_change_execute (Some accepting_client) 20 1 (example_change Pending)
            (example_world Pending))))))) = [True, True]"
    by (simp add: x recordChangeHistory_def update_frame) (simp add: example_world_def)
  show ?thesis
    unfolding both using u calls hist by simp
qed

subsection \<open>Approval without a backend\<close>

text \<open>
  Claim C7. Approving a pending proposal when no client is configured sets its status
  to approved and its review time, and nothing else: no backend call is made, no history
  row is written, the result is not flagged as an error, and the proposal is neither
  executed nor failed.
\<close>

theorem approve_without_backend:
  assumes "pending_changes (db w) i = Some change" and "status change = Pending"
  shows "approve_change None now i w =
           (ApprovedNotExecuted i,
            w\<lparr> db := (db w)\<lparr> pending_changes := (pending_changes (db w))(i \<mapsto>
                    change\<lparr> status := Approved, reviewedAt := Some now \<rparr>) \<rparr> \<rparr>) \<and>
         \<not> isError (ApprovedNotExecuted i) \<and>
         ads_calls (snd (approve_change None now i w)) = ads_calls w \<and>
         change_history (db (snd (approve_change None now i w))) = change_history (db w) \<and>
         map_option status (pending_changes (db (snd (approve_change None now i w))) i) =
           Some Approved"
  using assms
  by (simp add: approve_change_def approve_change_guard_def approve_change_execute_def
      getPendingChangeById_def updatePendingChangeStatus_def)

theorem approve_without_backend_witness:
  "pending_changes (db (example_world Pending)) 1 = Some (example_change Pending) \<and>
   status (example_change Pending) = Pending \<and>
   fst (approve_change None 30 1 (example_world Pending)) = ApprovedNotExecuted 1 \<and>
   ads_calls (snd (approve_change None 30 1 (example_world Pending))) = [] \<and>
   map_option status
     (pending_changes (db (snd (approve_change None 30 1 (example_world Pending)))) 1) =
     Some Approved"
proof -
  have h1: "pending_changes (db (example_world Pending)) 1 = Some (example_change Pending)"
    by (simp add: example_world_def)
  have h2: "status (example_change Pending) = Pending"
    by (simp add: example_change_def)
  have "ads_calls (example_world Pending) = []"
    by (simp add: example_world_def)
  then show ?thesis
    using h1 h2 approve_without_backend [OF h1 h2, of 30]
    by simp
qed

subsection \<open>Execution failure\<close>

text \<open>
  Claim C8, as the code has it. When a pending proposal is approved with a client and
  the backend call throws an \<open>Error\<close> whose message is not empty, the proposal becomes
  failed with review and execution time set and that message, unchanged, as its error
  message; exactly one history row is appended, with \<open>success = false\<close> and the message
  as its payload; the backend was called exactly once; the result carries the message
  and is flagged as an error.
\<close>

theorem approve_execution_failure:
  assumes "pending_changes (db w) i = Some change" and "status change = Pending"
    and "client (dispatch change) = Some (ErrorObject msg)" and "msg \<noteq> []"
  shows "approve_change (Some client) now i w =
           (ExecutionFailed i msg,
            w\<lparr> db := (db w)
                  \<lparr> pending_changes := (pending_changes (db w))(i \<mapsto>
                       change\<lparr> status := Failed, reviewedAt := Some now,
                               executedAt := Some now, errorMessage := Some msg \<rparr>),
                    change_history := change_history (db w) @
                      [\<lparr> pending_change_id = Some i, target_type = targetType change,
                         target_id = targetId change, change_type = changeType change,
                         old_value = Some (currentValue change),
                         new_value = proposedValue change, executed_at = now,
                         success = False,
                         api_response = Some [(''error'', JStr msg)] \<rparr>] \<rparr>,
               ads_calls := ads_calls w @ [dispatch change] \<rparr>) \<and>
         isError (ExecutionFailed i msg)"
  using assms
  by (simp add: approve_change_def approve_change_guard_def approve_change_execute_def
      getPendingChangeById_def updatePendingChangeStatus_def recordChangeHistory_def Let_def)

theorem approve_execution_failure_witness:
  "pending_changes (db (example_world Pending)) 1 = Some (example_change Pending) \<and>
   status (example_change Pending) = Pending \<and>
   throwing_client ''Failed to update keyword bid: INVALID_ARGUMENT''
     (dispatch (example_change Pending)) =
     Some (ErrorObject ''Failed to update keyword bid: INVALID_ARGUMENT'') \<and>
   ''Failed to update keyword bid: INVALID_ARGUMENT'' \<noteq> [] \<and>
   fst (approve_change
          (Some (throwing_client ''Failed to update keyword bid: INVALID_ARGUMENT'')) 30 1
          (example_world Pending)) =
     ExecutionFailed 1 ''Failed to update keyword bid: INVALID_ARGUMENT'' \<and>
   map_option errorMessage
     (pending_changes (db (snd (approve_change
          (Some (throwing_client ''Failed to update keyword bid: INVALID_ARGUMENT'')) 30 1
          (example_world Pending)))) 1) =
     Some (Some ''Failed to update keyword bid: INVALID_ARGUMENT'')"
proof -
  let ?m = "''Failed to update keyword bid: INVALID_ARGUMENT''"
  have h1: "pending_changes (db (example_world Pending)) 1 = Some (example_change Pending)"
    by (simp add: example_world_def)
  have h2: "status (example_change Pending) = Pending"
    by (simp add: example_change_def)
  have h3: "throwing_client ?m (dispatch (example_change Pending)) = Some (ErrorObject ?m)"
    by (simp add: throwing_client_def)
  have h4: "?m \<noteq> []" by simp
  show ?thesis
    using h1 h2 h3 h4
      approve_execution_failure [of "example_world Pending" 1 "example_change Pending"
        "throwing_client ?m" ?m 30, OF h1 h2 h3 h4]
    by simp
qed

text \<open>
  For an \<open>Error\<close> with an empty message the proposal becomes failed, but its error
  message stays NULL: the update sets the column only for a truthy argument.
\<close>

theorem approve_empty_error_message_counterexample:
  "fst (approve_change (Some (throwing_client '''')) 30 1 (example_world Pending)) =
     ExecutionFailed 1 '''' \<and>
   map_option status
     (pending_changes (db (snd (approve_change (Some (throwing_client '''')) 30 1
        (example_world Pending)))) 1) = Some Failed \<and>
   map_option errorMessage
     (pending_changes (db (snd (approve_change (Some (throwing_client '''')) 30 1
        (example_world Pending)))) 1) = Some None \<and>
   map_option errorMessage
     (pending_changes (db (snd (approve_change (Some (throwing_client '''')) 30 1
        (example_world Pending)))) 1) \<noteq> Some (Some '''')"
proof -
  have r: "fst (approve_change (Some (throwing_client '''')) 30 1 (example_world Pending)) =
      ExecutionFailed 1 ''''"
    by (simp add: example_world_def example_change_def throwing_client_def
        approve_change_def approve_change_guard_def approve_change_execute_def
        getPendingChangeById_def Let_def)
  have row: "pending_changes (db (snd (approve_change (Some (throwing_client '''')) 30 1
        (example_world Pending)))) 1 =
      Some ((example_change Pending)\<lparr> status := Failed, reviewedAt := Some 30,
              executedAt := Some 30 \<rparr>)"
    by (simp add: approve_lookup example_world_def example_change_def throwing_client_def)
  show ?thesis
    unfolding row using r by (simp add: example_change_def)
qed

subsection \<open>Proposing and rejecting a bid change\<close>

text \<open>
  Claim C9. Neither \<open>propose_bid_change\<close> nor \<open>reject_change\<close> changes the keywords
  table or calls the backend. For a keyword in the table (and an unused next id),
  proposing a bid change and then rejecting the proposal leaves the keyword's row, its
  bid included, as it was and the proposal in status rejected, with the old and the
  proposed bid, as \<open>JSON.stringify\<close> writes them, as its payloads.
\<close>

theorem propose_then_reject:
  "keywords_table (db (snd (propose_bid_change t1 k newBid rsn w))) = keywords_table (db w) \<and>
   ads_calls (snd (propose_bid_change t1 k newBid rsn w)) = ads_calls w \<and>
   keywords_table (db (snd (reject_change t2 j w))) = keywords_table (db w) \<and>
   ads_calls (snd (reject_change t2 j w)) = ads_calls w \<and>
   (keywords_table (db w) k = Some keyword \<and>
    pending_changes (db w) (pending_changes_id_seq (db w)) = None \<longrightarrow>
    (let i = pending_changes_id_seq (db w);
         w1 = snd (propose_bid_change t1 k newBid rsn w);
         w2 = snd (reject_change t2 i w1)
     in fst (propose_bid_change t1 k newBid rsn w) = ProposalCreated i \<and>
        fst (reject_change t2 i w1) = RejectedOk i \<and>
        map_option status (pending_changes (db w1) i) = Some Pending \<and>
        map_option status (pending_changes (db w2) i) = Some Rejected \<and>
        map_option currentValue (pending_changes (db w2) i) =
          Some (stored_payload [(''bid'', JNum (bid keyword))]) \<and>
        map_option proposedValue (pending_changes (db w2) i) =
          Some (stored_payload [(''bid'', JNum newBid)]) \<and>
        keywords_table (db w2) k = Some keyword \<and>
        ads_calls w2 = ads_calls w))"
proof -
  have main: "fst (propose_bid_change t1 k newBid rsn w) =
        ProposalCreated (pending_changes_id_seq (db w)) \<and>
      pending_changes (db (snd (propose_bid_change t1 k newBid rsn w)))
        (pending_changes_id_seq (db w)) =
        Some \<lparr> change_id = pending_changes_id_seq (db w), changeType = BidAdjustment,
               targetType = TKeyword, targetId = k,
               targetName = Some (keywordText keyword),
               currentValue = stored_payload [(''bid'', JNum (bid keyword))],
               proposedValue = stored_payload [(''bid'', JNum newBid)],
               reason = rsn, status = Pending, createdAt = t1,
               reviewedAt = None, executedAt = None, errorMessage = None \<rparr>"
    if "keywords_table (db w) k = Some keyword"
      and "pending_changes (db w) (pending_changes_id_seq (db w)) = None"
    using that
    by (simp add: propose_bid_change_def getKeywordById_def proposal_result_def
        createPendingChange_def Let_def)
  have rej: "fst (reject_change t2 i w') = RejectedOk i \<and>
      pending_changes (db (snd (reject_change t2 i w'))) i =
        Some (row\<lparr> status := Rejected, reviewedAt := Some t2 \<rparr>)"
    if "pending_changes (db w') i = Some row" and "status row = Pending" for w' i row
    using that
    by (simp add: reject_change_def getPendingChangeById_def update_lookup)
  have frame: "keywords_table (db (snd (propose_bid_change t1 k newBid rsn w))) =
        keywords_table (db w) \<and>
      ads_calls (snd (propose_bid_change t1 k newBid rsn w)) = ads_calls w \<and>
      keywords_table (db (snd (reject_change t2 j w))) = keywords_table (db w) \<and>
      ads_calls (snd (reject_change t2 j w)) = ads_calls w"
    by (simp add: propose_bid_frame reject_frame)
  have seq: "let i = pending_changes_id_seq (db w);
         w1 = snd (propose_bid_change t1 k newBid rsn w);
         w2 = snd (reject_change t2 i w1)
     in fst (propose_bid_change t1 k newBid rsn w) = ProposalCreated i \<and>
        fst (reject_change t2 i w1) = RejectedOk i \<and>
        map_option status (pending_changes (db w1) i) = Some Pending \<and>
        map_option status (pending_changes (db w2) i) = Some Rejected \<and>
        map_option currentValue (pending_changes (db w2) i) =
          Some (stored_payload [(''bid'', JNum (bid keyword))]) \<and>
        map_option proposedValue (pending_changes (db w2) i) =
          Some (stored_payload [(''bid'', JNum newBid)]) \<and>
        keywords_table (db w2) k = Some keyword \<and>
        ads_calls w2 = ads_calls w"
    if kw: "keywords_table (db w) k = Some keyword"
      and fresh: "pending_changes (db w) (pending_changes_id_seq (db w)) = None"
  proof -
    let ?i = "pending_changes_id_seq (db w)"
    let ?w1 = "snd (propose_bid_change t1 k newBid rsn w)"
    let ?row = "\<lparr> change_id = ?i, changeType = BidAdjustment,
               targetType = TKeyword, targetId = k,
               targetName = Some (keywordText keyword),
               currentValue = stored_payload [(''bid'', JNum (bid keyword))],
               proposedValue = stored_payload [(''bid'', JNum newBid)],
               reason = rsn, status = Pending, createdAt = t1,
               reviewedAt = None, executedAt = None, errorMessage = None \<rparr>"
    have p: "fst (propose_bid_change t1 k newBid rsn w) = ProposalCreated ?i"
      and row1: "pending_changes (db ?w1) ?i = Some ?row"
      using main [OF kw fresh] by simp_all
    have "status ?row = Pending" by simp
    from rej [OF row1 this]
    have r: "fst (reject_change t2 ?i ?w1) = RejectedOk ?i"
      and row2: "pending_changes (db (snd (reject_change t2 ?i ?w1))) ?i =
        Some (?row\<lparr> status := Rejected, reviewedAt := Some t2 \<rparr>)"
      by simp_all
    show ?thesis
      unfolding Let_def row1 row2
      using p r kw by (simp add: propose_bid_frame reject_frame)
  qed
  show ?thesis
    using frame seq by blast
qed

theorem propose_then_reject_witness:
  "keywords_table (db empty_world) ''kw1'' = Some example_keyword \<and>
   pending_changes (db empty_world) (pending_changes_id_seq (db empty_world)) = None \<and>
   fst (propose_bid_change 10 ''kw1'' bid_0_85 None empty_world) = ProposalCreated 1 \<and>
   map_option status (pending_changes (db (snd (reject_change 11 1
     (snd (propose_bid_change 10 ''kw1'' bid_0_85 None empty_world))))) 1) =
     Some Rejected \<and>
   map_option bid (keywords_table (db (snd (reject_change 11 1
     (snd (propose_bid_change 10 ''kw1'' bid_0_85 None empty_world))))) ''kw1'') =
     Some bid_1_10 \<and>
   ads_calls (snd (reject_change 11 1
     (snd (propose_bid_change 10 ''kw1'' bid_0_85 None empty_world)))) = [] \<and>
   map_option proposedValue (pending_changes (db (snd (reject_change 11 1
     (snd (propose_bid_change 10 ''kw1'' bid_0_85 None empty_world))))) 1) =
     Some [(''bid'', JNum bid_0_85)]"
proof -
  have h1: "keywords_table (db empty_world) ''kw1'' = Some example_keyword"
    by (simp add: empty_world_def)
  have h2: "pending_changes (db empty_world) (pending_changes_id_seq (db empty_world)) = None"
    by (simp add: empty_world_def)
  have s: "pending_changes_id_seq (db empty_world) = 1" "ads_calls empty_world = []"
    by (simp_all add: empty_world_def)
  have b: "bid example_keyword = bid_1_10"
    by (simp add: example_keyword_def)
  show ?thesis
    using h1 h2
      propose_then_reject [of 10 "''kw1''" bid_0_85 None empty_world 11 1
        example_keyword]
    by (simp add: Let_def s b stored_payload_def bid_0_85_def)
qed

end
